theory Spec2Isabelle
  imports Main
begin

section \<open>Strings, exceptions and effects\<close>

text \<open>
  The program is a Python command-line client (\<^verbatim>\<open>main.py\<close>). Python strings are modelled
  as \<^typ>\<open>string\<close>, one \<^typ>\<open>char\<close> per code point below 256. \<^verbatim>\<open>str.lower\<close> and
  \<^verbatim>\<open>str.strip\<close> are written out for that range: the upper-case letters are A-Z and
  0xC0-0xDE without 0xD7, and the white space characters are 9-13, 28-32, 0x85 and 0xA0.
\<close>

definition lower_char :: "char \<Rightarrow> char" where
  "lower_char c =
     (let n = (of_char c :: nat)
      in if (65 \<le> n \<and> n \<le> 90) \<or> (192 \<le> n \<and> n \<le> 222 \<and> n \<noteq> 215)
         then char_of (n + 32) else c)"

definition lower :: "string \<Rightarrow> string" where
  "lower s = map lower_char s"

definition isspace :: "char \<Rightarrow> bool" where
  "isspace c =
     (let n = (of_char c :: nat)
      in (9 \<le> n \<and> n \<le> 13) \<or> (28 \<le> n \<and> n \<le> 32) \<or> n = 133 \<or> n = 160)"

definition strip :: "string \<Rightarrow> string" where
  "strip s = rev (dropWhile isspace (rev (dropWhile isspace s)))"

text \<open>Decimal rendering of a natural number, as an f-string renders \<^verbatim>\<open>len(messages)\<close>.\<close>

fun str_nat_fuel :: "nat \<Rightarrow> nat \<Rightarrow> string" where
  "str_nat_fuel 0 n = [char_of (48 + n mod 10)]"
| "str_nat_fuel (Suc k) n =
     (if n < 10 then [char_of (48 + n)]
      else str_nat_fuel k (n div 10) @ [char_of (48 + n mod 10)])"

definition str_nat :: "nat \<Rightarrow> string" where
  "str_nat n = str_nat_fuel n n"

text \<open>
  Exceptions are values. Only subclasses of Python's \<^verbatim>\<open>Exception\<close> occur; an asynchronous
  interrupt of the process is outside the model. \<^verbatim>\<open>str(e)\<close> is \<open>str_exn\<close>: for the
  exceptions raised by the remote client it is the message they carry; an
  \<^verbatim>\<open>AttributeError\<close> raised by a failed attribute access carries the name of the class
  of the object and the name of the attribute, and its message is Python's
  \<^verbatim>\<open>'Class' object has no attribute 'name'\<close>.
\<close>

datatype exn =
    EOFError
  | Abort
  | ClickException string
  | AttributeError string string
  | IndexError string
  | RemoteError string

definition quoted :: "string \<Rightarrow> string" where
  "quoted s = [CHR 0x27] @ s @ [CHR 0x27]"

fun str_exn :: "exn \<Rightarrow> string" where
  "str_exn EOFError = []"
| "str_exn Abort = []"
| "str_exn (ClickException m) = m"
| "str_exn (AttributeError c a) = quoted c @ '' object has no attribute '' @ quoted a"
| "str_exn (IndexError m) = m"
| "str_exn (RemoteError m) = m"

text \<open>A message of the conversation: the dict \<^verbatim>\<open>{"role": ..., "content": ...}\<close>. The content
  of an assistant message is what the remote service returned, which may be \<^verbatim>\<open>None\<close>.\<close>

record message =
  role :: string
  content :: "string option"

text \<open>The keyword arguments of \<^verbatim>\<open>client.chat.completions.create\<close>; an absent keyword is
  \<open>None\<close>.\<close>

record chat_request =
  chat_model :: string
  chat_messages :: "message list"
  chat_stream :: "bool option"

text \<open>The dict \<^verbatim>\<open>request_params\<close> of the Responses API; an absent key is \<open>None\<close>.\<close>

record request =
  req_model :: string
  req_input :: "message list"
  req_previous_response_id :: "string option"
  req_background :: "bool option"
  req_stream :: "bool option"

text \<open>
  What the program does to the outside world, in order: \<open>Echo s\<close> is
  \<^verbatim>\<open>click.echo(s, nl=False)\<close>, \<open>EchoLn s\<close> is \<^verbatim>\<open>click.echo(s)\<close>, \<open>Prompt\<close> is a
  \<^verbatim>\<open>click.prompt\<close>, \<open>Sleep\<close> is \<^verbatim>\<open>time.sleep\<close>, \<open>NewClient\<close> is the construction of
  the \<^verbatim>\<open>OpenAI\<close> client, and the remaining three are the calls to the remote service.
\<close>

datatype effect =
    Echo string
  | EchoLn string
  | Prompt string
  | Sleep nat
  | NewClient string string
  | ChatCreate chat_request
  | ResponsesCreate request
  | ResponsesRetrieve string

section \<open>Objects returned by the remote client\<close>

text \<open>
  The source probes its objects with \<^verbatim>\<open>hasattr\<close>. An attribute is an option: \<open>None\<close> is
  an object without the attribute, so that reading it raises \<^verbatim>\<open>AttributeError\<close>. A present
  attribute holds a value of the type the client library declares for it.
\<close>

text \<open>A chunk of a streamed chat completion: \<open>chunk_choices\<close> lists, for each choice,
  \<^verbatim>\<open>choice.delta.content\<close> (a string or \<^verbatim>\<open>None\<close>).\<close>

datatype chunk = Chunk (chunk_choices: "string option list")

text \<open>A complete chat completion: for each choice, \<^verbatim>\<open>choice.message.content\<close>.\<close>

datatype completion = Completion (completion_choices: "string option list")

text \<open>A response of the Responses API. An output item carries the text that \<^verbatim>\<open>repr\<close> gives
  for it, which is what \<^verbatim>\<open>str\<close> of the output list is built from. A response carries the
  name of its class, which is what the message of an \<^verbatim>\<open>AttributeError\<close> names.\<close>

datatype content_part = ContentPart (part_text: "string option")

datatype output_item = OutputItem (item_repr: string) (item_content: "content_part list option")

record response =
  resp_class :: string
  resp_id :: "string option"
  resp_status :: "string option"
  resp_output_text :: "string option"
  resp_output :: "output_item list option"

text \<open>A streamed event of the Responses API.\<close>

datatype event_response = EventResponse (event_response_id: "string option")

record event =
  ev_type :: "string option"
  ev_delta :: "string option"
  ev_response :: "event_response option"
  ev_id :: "string option"

text \<open>
  A stream is the list of what each \<^verbatim>\<open>next\<close> of the iterator does: it yields an item
  (\<open>Inr\<close>) or raises (\<open>Inl\<close>); the end of the list is the end of the iteration.

  The remote service during one turn of the conversation: what each call returns or raises.
  \<open>responses_retrieve k i\<close> is the outcome of the \<open>k\<close>-th retrieval of the turn.
\<close>

record remote =
  chat_create :: "chat_request \<Rightarrow> exn + completion"
  chat_create_stream :: "chat_request \<Rightarrow> exn + (exn + chunk) list"
  responses_create :: "request \<Rightarrow> exn + response"
  responses_create_stream :: "request \<Rightarrow> exn + (exn + event) list"
  responses_retrieve :: "nat \<Rightarrow> string \<Rightarrow> exn + response"

text \<open>One iteration of a chat loop meets the outcome of its \<^verbatim>\<open>click.prompt\<close> and the
  remote service as it behaves during that iteration.\<close>

record turn_env =
  prompt_result :: "exn + string"
  remote_of :: remote

text \<open>How an iteration of a \<^verbatim>\<open>while True\<close> loop ends: at the loop head again with a new
  state, by \<^verbatim>\<open>break\<close>, or by an exception that leaves the loop.\<close>

datatype 's control = Continue 's | Break | Raise exn

definition EXIT_COMMANDS :: "string set" where
  "EXIT_COMMANDS = {''/quit'', ''/q'', ''/exit'', ''/e''}"

section \<open>The Chat Completions loop\<close>

text \<open>
  The loop of \<^verbatim>\<open>for chunk in stream_response\<close> in \<^verbatim>\<open>run_chat_completions\<close>:
  \<^verbatim>\<open>chunk.choices[0]\<close> raises \<^verbatim>\<open>IndexError\<close> on a chunk without choices; a content that
  is not \<^verbatim>\<open>None\<close> is echoed and appended to \<^verbatim>\<open>response_text\<close>.
\<close>

fun consume_chunks :: "(exn + chunk) list \<Rightarrow> string \<Rightarrow> effect list \<times> (exn + string)" where
  "consume_chunks [] response_text = ([], Inr response_text)"
| "consume_chunks (Inl e # rest) response_text = ([], Inl e)"
| "consume_chunks (Inr chunk # rest) response_text =
     (case chunk_choices chunk of
        [] \<Rightarrow> ([], Inl (IndexError ''list index out of range''))
      | c # _ \<Rightarrow>
          (case c of
             None \<Rightarrow> consume_chunks rest response_text
           | Some content' \<Rightarrow>
               (case consume_chunks rest (response_text @ content') of
                  (out, r) \<Rightarrow> (Echo content' # out, r))))"

text \<open>\<^verbatim>\<open>click.echo(x)\<close> for a value that is a string or \<^verbatim>\<open>None\<close>: \<^verbatim>\<open>None\<close> prints the
  newline alone.\<close>

definition echo_value :: "string option \<Rightarrow> effect" where
  "echo_value v = (case v of None \<Rightarrow> EchoLn [] | Some s \<Rightarrow> EchoLn s)"

text \<open>
  The body of the \<^verbatim>\<open>try\<close> of one turn (lines 313-338), run on the message list that
  already holds the user's message. It returns the effects, the message list as the body
  left it, and the exception that ended the body, if one did.
\<close>

definition completions_try ::
  "remote \<Rightarrow> string \<Rightarrow> bool \<Rightarrow> message list \<Rightarrow> effect list \<times> message list \<times> exn option" where
  "completions_try rem model stream messages =
     (if stream then
        (let req = \<lparr>chat_model = model, chat_messages = messages, chat_stream = Some True\<rparr>
         in case chat_create_stream rem req of
              Inl e \<Rightarrow> ([ChatCreate req], messages, Some e)
            | Inr stream_response \<Rightarrow>
                (case consume_chunks stream_response [] of
                   (out, Inl e) \<Rightarrow> (ChatCreate req # out, messages, Some e)
                 | (out, Inr response_text) \<Rightarrow>
                     (ChatCreate req # out @ [EchoLn []],
                      messages @ [\<lparr>role = ''assistant'', content = Some response_text\<rparr>],
                      None)))
      else
        (let req = \<lparr>chat_model = model, chat_messages = messages, chat_stream = None\<rparr>
         in case chat_create rem req of
              Inl e \<Rightarrow> ([ChatCreate req], messages, Some e)
            | Inr response \<Rightarrow>
                (case completion_choices response of
                   [] \<Rightarrow> ([ChatCreate req], messages, Some (IndexError ''list index out of range''))
                 | assistant_message # _ \<Rightarrow>
                     ([ChatCreate req, echo_value assistant_message],
                      messages @ [\<lparr>role = ''assistant'', content = assistant_message\<rparr>],
                      None))))"

text \<open>\<^verbatim>\<open>messages.pop()\<close>: the list without its last element; on the empty list Python raises
  \<^verbatim>\<open>IndexError\<close>.\<close>

definition pop :: "'a list \<Rightarrow> exn + 'a list" where
  "pop xs = (if xs = [] then Inl (IndexError ''pop from empty list'') else Inr (butlast xs))"

text \<open>
  One turn (lines 306-345): the user's message is appended, the body of the \<^verbatim>\<open>try\<close> runs,
  and the handler of \<^verbatim>\<open>except Exception\<close> prints the error and pops the last message.
\<close>

definition completions_turn ::
  "remote \<Rightarrow> string \<Rightarrow> bool \<Rightarrow> message list \<Rightarrow> string \<Rightarrow> effect list \<times> message list control" where
  "completions_turn rem model stream messages user_input =
     (let messages1 = messages @ [\<lparr>role = ''user'', content = Some user_input\<rparr>];
          pre = [EchoLn [], Echo ''Assistant: '']
      in case completions_try rem model stream messages1 of
           (out, messages2, None) \<Rightarrow> (pre @ out @ [EchoLn []], Continue messages2)
         | (out, messages2, Some e) \<Rightarrow>
             (case pop messages2 of
                Inl e' \<Rightarrow> (pre @ out @ [EchoLn (''\<newline>Error: '' @ str_exn e)], Raise e')
              | Inr messages3 \<Rightarrow>
                  (pre @ out @ [EchoLn (''\<newline>Error: '' @ str_exn e), EchoLn []],
                   Continue messages3)))"

text \<open>
  One iteration of the \<^verbatim>\<open>while True\<close> loop of \<^verbatim>\<open>run_chat_completions\<close> (lines 282-345),
  from the prompt to the end of the turn.
\<close>

definition completions_iteration ::
  "string \<Rightarrow> bool \<Rightarrow> string \<Rightarrow> turn_env \<Rightarrow> message list \<Rightarrow> effect list \<times> message list control" where
  "completions_iteration model stream system env messages =
     (case prompt_result env of
        Inl e \<Rightarrow> (if e = EOFError then ([Prompt ''You: ''], Break) else ([Prompt ''You: ''], Raise e))
      | Inr line \<Rightarrow>
          (let user_input = strip line
           in if user_input = [] then ([Prompt ''You: ''], Continue messages)
              else if lower user_input \<in> EXIT_COMMANDS then
                ([Prompt ''You: '', EchoLn ''Goodbye!''], Break)
              else if lower user_input = ''/clear'' then
                ([Prompt ''You: '', EchoLn ''Conversation cleared.\<newline>''],
                 Continue [\<lparr>role = ''system'', content = Some system\<rparr>])
              else if lower user_input = ''/status'' then
                ([Prompt ''You: '',
                  EchoLn ''API: Chat Completions (stateless)'',
                  EchoLn (''Model: '' @ model),
                  EchoLn (''Messages in history: '' @ str_nat (length messages)),
                  EchoLn []],
                 Continue messages)
              else
                (case completions_turn (remote_of env) model stream messages user_input of
                   (out, r) \<Rightarrow> (Prompt ''You: '' # out, r))))"

text \<open>
  The loop itself, run against the iterations the environment supplies. \<open>Continue s\<close> as
  the result says that after these iterations the loop is at its head again, in state
  \<open>s\<close>, waiting for the next prompt.
\<close>

fun completions_loop ::
  "string \<Rightarrow> bool \<Rightarrow> string \<Rightarrow> turn_env list \<Rightarrow> message list \<Rightarrow> effect list \<times> message list control" where
  "completions_loop model stream system [] messages = ([], Continue messages)"
| "completions_loop model stream system (env # envs) messages =
     (case completions_iteration model stream system env messages of
        (out, Continue messages') \<Rightarrow>
          (case completions_loop model stream system envs messages' of
             (out', r) \<Rightarrow> (out @ out', r))
      | (out, Break) \<Rightarrow> (out, Break)
      | (out, Raise e) \<Rightarrow> (out, Raise e))"

definition run_chat_completions ::
  "string \<Rightarrow> bool \<Rightarrow> string \<Rightarrow> turn_env list \<Rightarrow> effect list \<times> message list control" where
  "run_chat_completions model stream system envs =
     completions_loop model stream system envs [\<lparr>role = ''system'', content = Some system\<rparr>]"

section \<open>The Responses loop\<close>

text \<open>
  The body of the loop of \<^verbatim>\<open>process_streaming_events\<close> for one event (lines 48-65):
  what is printed, and the new \<^verbatim>\<open>response_text\<close> and \<^verbatim>\<open>response_id\<close>.
\<close>

definition process_event ::
  "event \<Rightarrow> string \<Rightarrow> string option \<Rightarrow> effect list \<times> string \<times> string option" where
  "process_event ev response_text response_id =
     (case ev_type ev of
        Some ty \<Rightarrow>
          (if ty = ''response.output_text.delta'' then
             (case ev_delta ev of
                Some d \<Rightarrow> ([Echo d], response_text @ d, response_id)
              | None \<Rightarrow> ([], response_text, response_id))
           else if ty = ''response.completed'' then
             (case ev_response ev of
                Some r \<Rightarrow>
                  (case event_response_id r of
                     Some i \<Rightarrow> ([], response_text, Some i)
                   | None \<Rightarrow> ([], response_text, response_id))
              | None \<Rightarrow> ([], response_text, response_id))
           else if ty = ''response.queued'' then
             ([Echo ''[Queued...]''], response_text, response_id)
           else if ty = ''response.in_progress'' then
             ([Echo ''[Processing...]''], response_text, response_id)
           else ([], response_text, response_id))
      | None \<Rightarrow>
          (case ev_delta ev of
             Some d \<Rightarrow> ([Echo d], response_text @ d, response_id)
           | None \<Rightarrow>
               (case ev_id ev of
                  Some i \<Rightarrow> ([], response_text, Some i)
                | None \<Rightarrow> ([], response_text, response_id))))"

text \<open>The \<^verbatim>\<open>for\<close> loop over the stream; an exception raised by the iterator leaves it.\<close>

fun process_events ::
  "(exn + event) list \<Rightarrow> string \<Rightarrow> string option \<Rightarrow> effect list \<times> (exn + string \<times> string option)" where
  "process_events [] response_text response_id = ([], Inr (response_text, response_id))"
| "process_events (Inl e # rest) response_text response_id = ([], Inl e)"
| "process_events (Inr ev # rest) response_text response_id =
     (case process_event ev response_text response_id of
        (out, response_text', response_id') \<Rightarrow>
          (case process_events rest response_text' response_id' of
             (out', r) \<Rightarrow> (out @ out', r)))"

definition process_streaming_events ::
  "(exn + event) list \<Rightarrow> effect list \<times> (exn + string \<times> string option)" where
  "process_streaming_events stream_response =
     (case process_events stream_response [] None of
        (out, Inl e) \<Rightarrow> (out, Inl e)
      | (out, Inr r) \<Rightarrow> (out @ [EchoLn []], Inr r))"

text \<open>\<^verbatim>\<open>str\<close> of a Python list: the \<^verbatim>\<open>repr\<close> of the elements, separated by a comma and a
  space, in square brackets.\<close>

fun join_reprs :: "string list \<Rightarrow> string" where
  "join_reprs [] = []"
| "join_reprs [x] = x"
| "join_reprs (x # y # ys) = x @ '', '' @ join_reprs (y # ys)"

definition str_output :: "output_item list \<Rightarrow> string" where
  "str_output items = ''['' @ join_reprs (map item_repr items) @ '']''"

text \<open>The texts that the two nested loops of \<^verbatim>\<open>extract_response_text\<close> collect from one
  output item.\<close>

definition item_texts :: "output_item \<Rightarrow> string list" where
  "item_texts item =
     (case item_content item of
        None \<Rightarrow> []
      | Some parts \<Rightarrow> List.map_filter part_text parts)"

text \<open>
  \<^verbatim>\<open>extract_response_text\<close> (lines 84-97). The last line reads \<^verbatim>\<open>response.output\<close>
  whether or not the object has the attribute.
\<close>

definition extract_response_text :: "response \<Rightarrow> exn + string" where
  "extract_response_text response =
     (case resp_output_text response of
        Some t \<Rightarrow> Inr t
      | None \<Rightarrow>
          (case resp_output response of
             None \<Rightarrow> Inl (AttributeError (resp_class response) ''output'')
           | Some output \<Rightarrow>
               (if output \<noteq> [] then
                  (let text_parts = concat (map item_texts output)
                   in if text_parts \<noteq> [] then Inr (concat text_parts)
                      else Inr (str_output output))
                else Inr (str_output output))))"

text \<open>
  The polling loop (lines 427-432). The remote job may stay pending for ever, so the loop
  is a partial function: \<open>None\<close> is a loop that does not end. \<open>out\<close> collects the effects.
  Reading \<^verbatim>\<open>response.status\<close> of an object without the attribute raises.
\<close>

partial_function (option) poll ::
  "(nat \<Rightarrow> string \<Rightarrow> exn + response) \<Rightarrow> string \<Rightarrow> response \<Rightarrow> nat \<Rightarrow> effect list
     \<Rightarrow> (effect list \<times> (exn + response)) option" where
  "poll retrieve response_id response poll_count out =
     (case resp_status response of
        None \<Rightarrow> Some (out, Inl (AttributeError (resp_class response) ''status''))
      | Some st \<Rightarrow>
          (if st = ''queued'' \<or> st = ''in_progress'' then
             (let poll_count' = poll_count + 1;
                  out' = out @ [Sleep 1] @ (if poll_count' mod 5 = 0 then [Echo ''.''] else [])
                             @ [ResponsesRetrieve response_id]
              in case retrieve poll_count' response_id of
                   Inl e \<Rightarrow> Some (out', Inl e)
                 | Inr response' \<Rightarrow> poll retrieve response_id response' poll_count' out')
           else Some (out, Inr response)))"

text \<open>Python's truth value of \<^verbatim>\<open>str | None\<close>: \<^verbatim>\<open>None\<close> and the empty string are false.\<close>

definition truthy :: "string option \<Rightarrow> bool" where
  "truthy v = (case v of None \<Rightarrow> False | Some s \<Rightarrow> s \<noteq> [])"

text \<open>
  The input and the request parameters that every turn builds first (lines 389-405).
  The system message is added when the identifier \<^verbatim>\<open>is None\<close>; the identifier is added to
  the request when it is true.
\<close>

definition input_messages :: "string \<Rightarrow> string \<Rightarrow> string option \<Rightarrow> message list" where
  "input_messages system user_input previous_response_id =
     (if previous_response_id = None then [\<lparr>role = ''system'', content = Some system\<rparr>] else [])
     @ [\<lparr>role = ''user'', content = Some user_input\<rparr>]"

definition request_params :: "string \<Rightarrow> string \<Rightarrow> string \<Rightarrow> string option \<Rightarrow> request" where
  "request_params model system user_input previous_response_id =
     \<lparr>req_model = model,
      req_input = input_messages system user_input previous_response_id,
      req_previous_response_id =
        (if truthy previous_response_id then previous_response_id else None),
      req_background = None,
      req_stream = None\<rparr>"

text \<open>
  The streaming request, which the source writes twice (lines 413-417 with the background
  flag set before, lines 449-453 without). Like every part of the body of the \<^verbatim>\<open>try\<close>
  it returns the effects, the identifier as it stands when the part ends, and the
  exception that ended it, if one did.
\<close>

definition stream_request ::
  "remote \<Rightarrow> request \<Rightarrow> string option \<Rightarrow> effect list \<times> string option \<times> exn option" where
  "stream_request rem params previous_response_id =
     (let params' = params\<lparr>req_stream := Some True\<rparr>
      in case responses_create_stream rem params' of
           Inl e \<Rightarrow> ([ResponsesCreate params'], previous_response_id, Some e)
         | Inr stream_response \<Rightarrow>
             (case process_streaming_events stream_response of
                (out, Inl e) \<Rightarrow> (ResponsesCreate params' # out, previous_response_id, Some e)
              | (out, Inr (_, response_id)) \<Rightarrow>
                  (ResponsesCreate params' # out,
                   (if truthy response_id then response_id else previous_response_id),
                   None)))"

text \<open>What follows the polling loop (lines 434-445), for the response it ended with.\<close>

definition report_job ::
  "string \<Rightarrow> response \<Rightarrow> string option \<Rightarrow> effect list \<times> string option \<times> exn option" where
  "report_job response_id response previous_response_id =
     (let pre = [EchoLn [], Echo ''Assistant: '']
      in case resp_status response of
           None \<Rightarrow> (pre, previous_response_id, Some (AttributeError (resp_class response) ''status''))
         | Some st \<Rightarrow>
             (if st = ''completed'' then
                (case extract_response_text response of
                   Inl e \<Rightarrow> (pre, previous_response_id, Some e)
                 | Inr text \<Rightarrow> (pre @ [EchoLn text], Some response_id, None))
              else if st = ''failed'' then
                (pre @ [EchoLn (''[Background task failed: '' @ st @ '']'')],
                 previous_response_id, None)
              else if st = ''cancelled'' then
                (pre @ [EchoLn ''[Background task was cancelled]''], previous_response_id, None)
              else
                (pre @ [EchoLn (''[Unexpected status: '' @ st @ '']'')],
                 previous_response_id, None)))"

text \<open>The background request without streaming (lines 420-445).\<close>

definition background_request ::
  "remote \<Rightarrow> request \<Rightarrow> string option \<Rightarrow> (effect list \<times> string option \<times> exn option) option" where
  "background_request rem params previous_response_id =
     (case responses_create rem params of
        Inl e \<Rightarrow> Some ([ResponsesCreate params], previous_response_id, Some e)
      | Inr response \<Rightarrow>
          (case resp_id response of
             None \<Rightarrow>
               Some ([ResponsesCreate params], previous_response_id,
                     Some (AttributeError (resp_class response) ''id''))
           | Some response_id \<Rightarrow>
               (case poll (responses_retrieve rem) response_id response 0
                       [ResponsesCreate params, Echo ''[Background processing started...]''] of
                  None \<Rightarrow> None
                | Some (out, Inl e) \<Rightarrow> Some (out, previous_response_id, Some e)
                | Some (out, Inr response') \<Rightarrow>
                    (case report_job response_id response' previous_response_id of
                       (out', r) \<Rightarrow> Some (out @ out', r)))))"

text \<open>The plain request (lines 457-459).\<close>

definition plain_request ::
  "remote \<Rightarrow> request \<Rightarrow> string option \<Rightarrow> effect list \<times> string option \<times> exn option" where
  "plain_request rem params previous_response_id =
     (case responses_create rem params of
        Inl e \<Rightarrow> ([ResponsesCreate params], previous_response_id, Some e)
      | Inr response \<Rightarrow>
          (case extract_response_text response of
             Inl e \<Rightarrow> ([ResponsesCreate params], previous_response_id, Some e)
           | Inr text \<Rightarrow>
               (case resp_id response of
                  None \<Rightarrow>
                    ([ResponsesCreate params, EchoLn text], previous_response_id,
                     Some (AttributeError (resp_class response) ''id''))
                | Some i \<Rightarrow> ([ResponsesCreate params, EchoLn text], Some i, None))))"

text \<open>The body of the \<^verbatim>\<open>try\<close> of one turn (lines 388-459).\<close>

definition responses_try ::
  "remote \<Rightarrow> string \<Rightarrow> bool \<Rightarrow> bool \<Rightarrow> string \<Rightarrow> string \<Rightarrow> string option
     \<Rightarrow> (effect list \<times> string option \<times> exn option) option" where
  "responses_try rem model stream background system user_input previous_response_id =
     (let params = request_params model system user_input previous_response_id
      in if background then
           (let params' = params\<lparr>req_background := Some True\<rparr>
            in if stream then Some (stream_request rem params' previous_response_id)
               else background_request rem params' previous_response_id)
         else if stream then Some (stream_request rem params previous_response_id)
         else Some (plain_request rem params previous_response_id))"

text \<open>
  One iteration of the \<^verbatim>\<open>while True\<close> loop of \<^verbatim>\<open>run_responses_api\<close> (lines 359-464).
  The state is \<^verbatim>\<open>previous_response_id\<close>. The handler of \<^verbatim>\<open>except Exception\<close> prints
  the error and touches nothing, so the loop goes on with the identifier as the body of
  the \<^verbatim>\<open>try\<close> left it.
\<close>

definition responses_iteration ::
  "string \<Rightarrow> bool \<Rightarrow> bool \<Rightarrow> string \<Rightarrow> turn_env \<Rightarrow> string option
     \<Rightarrow> (effect list \<times> string option control) option" where
  "responses_iteration model stream background system env previous_response_id =
     (case prompt_result env of
        Inl e \<Rightarrow>
          (if e = EOFError then Some ([Prompt ''You: ''], Break)
           else Some ([Prompt ''You: ''], Raise e))
      | Inr line \<Rightarrow>
          (let user_input = strip line
           in if user_input = [] then Some ([Prompt ''You: ''], Continue previous_response_id)
              else if lower user_input \<in> EXIT_COMMANDS then
                Some ([Prompt ''You: '', EchoLn ''Goodbye!''], Break)
              else if lower user_input = ''/clear'' then
                Some ([Prompt ''You: '',
                       EchoLn ''Conversation cleared (stateful context reset).\<newline>''],
                      Continue None)
              else if lower user_input = ''/status'' then
                Some ([Prompt ''You: '',
                       EchoLn ''API: Responses (stateful)'',
                       EchoLn (''Model: '' @ model),
                       EchoLn (''Background: '' @ (if background then ''enabled'' else ''disabled'')),
                       EchoLn (''Previous response ID: '' @
                         (case previous_response_id of
                            None \<Rightarrow> ''None (new conversation)''
                          | Some i \<Rightarrow> if i \<noteq> [] then i else ''None (new conversation)'')),
                       EchoLn []],
                      Continue previous_response_id)
              else
                (case responses_try (remote_of env) model stream background system user_input
                        previous_response_id of
                   None \<Rightarrow> None
                 | Some (out, previous_response_id', None) \<Rightarrow>
                     Some ([Prompt ''You: '', EchoLn [], Echo ''Assistant: ''] @ out @ [EchoLn []],
                           Continue previous_response_id')
                 | Some (out, previous_response_id', Some e) \<Rightarrow>
                     Some ([Prompt ''You: '', EchoLn [], Echo ''Assistant: ''] @ out
                             @ [EchoLn (''\<newline>Error: '' @ str_exn e), EchoLn []],
                           Continue previous_response_id'))))"

fun responses_loop ::
  "string \<Rightarrow> bool \<Rightarrow> bool \<Rightarrow> string \<Rightarrow> turn_env list \<Rightarrow> string option
     \<Rightarrow> (effect list \<times> string option control) option" where
  "responses_loop model stream background system [] previous_response_id =
     Some ([], Continue previous_response_id)"
| "responses_loop model stream background system (env # envs) previous_response_id =
     (case responses_iteration model stream background system env previous_response_id of
        None \<Rightarrow> None
      | Some (out, Continue previous_response_id') \<Rightarrow>
          (case responses_loop model stream background system envs previous_response_id' of
             None \<Rightarrow> None
           | Some (out', r) \<Rightarrow> Some (out @ out', r))
      | Some (out, Break) \<Rightarrow> Some (out, Break)
      | Some (out, Raise e) \<Rightarrow> Some (out, Raise e))"

definition run_responses_api ::
  "string \<Rightarrow> bool \<Rightarrow> bool \<Rightarrow> string \<Rightarrow> turn_env list
     \<Rightarrow> (effect list \<times> string option control) option" where
  "run_responses_api model stream background system envs =
     responses_loop model stream background system envs None"

section \<open>The chat command\<close>

text \<open>\<^verbatim>\<open>create_client\<close> (lines 100-117): both environment variables must be set and not
  empty. The result is the pair of arguments the client is constructed with.\<close>

definition create_client :: "(string \<rightharpoonup> string) \<Rightarrow> exn + string \<times> string" where
  "create_client environ =
     (let api_key = environ ''OPENAI_API_KEY'';
          base_url = environ ''OPENAI_BASE_URL''
      in if \<not> truthy api_key then
           Inl (ClickException
             (''OPENAI_API_KEY is required. Set it in .env file or as environment variable.\<newline>'' @
              ''See: https://docs.aws.amazon.com/bedrock/latest/userguide/api-keys.html''))
         else if \<not> truthy base_url then
           Inl (ClickException
             (''OPENAI_BASE_URL is required. Set it in .env file or as environment variable.\<newline>'' @
              ''Example: https://bedrock-mantle.us-east-1.api.aws/v1''))
         else Inr (case base_url of None \<Rightarrow> [] | Some u \<Rightarrow> u,
                   case api_key of None \<Rightarrow> [] | Some k \<Rightarrow> k))"

text \<open>
  How a run of the command ends: it returns, it raises, or, when the iterations supplied
  are used up and the loop is still waiting for input, it has not ended yet.
\<close>

datatype outcome = Returned | Raised exn | Waiting

text \<open>The handlers around the loop (lines 265-270): a \<^verbatim>\<open>ClickException\<close> is raised again,
  any other exception is wrapped into one.\<close>

definition chat_outcome :: "'s control \<Rightarrow> outcome" where
  "chat_outcome r =
     (case r of
        Continue _ \<Rightarrow> Waiting
      | Break \<Rightarrow> Returned
      | Raise e \<Rightarrow>
          (case e of
             ClickException m \<Rightarrow> Raised e
           | _ \<Rightarrow> Raised (ClickException (''Chat error: '' @ str_exn e))))"

definition chat_header :: "string \<Rightarrow> bool \<Rightarrow> bool \<Rightarrow> bool \<Rightarrow> effect list" where
  "chat_header model no_stream completions background =
     (if background \<and> \<not> no_stream then
        [EchoLn ''Note: Background mode with streaming - events will stream as processing completes.'',
         EchoLn []]
      else [])
     @ [EchoLn ''Starting chat session'',
        EchoLn (''  Model: '' @ model),
        EchoLn (''  API: '' @ (if completions then ''Chat Completions'' else ''Responses'') @ '' API''),
        EchoLn (''  Streaming: '' @ (if no_stream then ''disabled'' else ''enabled''))]
     @ (if \<not> completions then
          [EchoLn (''  Background: '' @ (if background then ''enabled'' else ''disabled''))]
        else [])
     @ [EchoLn [],
        EchoLn ''Type /quit or /q to exit, /clear to reset conversation'',
        EchoLn (replicate 60 (CHR ''-'')),
        EchoLn []]"

text \<open>\<^verbatim>\<open>chat\<close> (lines 228-270).\<close>

definition chat ::
  "(string \<rightharpoonup> string) \<Rightarrow> string \<Rightarrow> bool \<Rightarrow> bool \<Rightarrow> bool \<Rightarrow> string \<Rightarrow> turn_env list
     \<Rightarrow> (effect list \<times> outcome) option" where
  "chat environ model no_stream completions background system envs =
     (let stream = \<not> no_stream
      in if background \<and> completions then
           Some ([], Raised (ClickException
             (''Background processing is only available with the Responses API.\<newline>'' @
              ''Remove --completions to use background mode.'')))
         else
           (let header = chat_header model no_stream completions background
            in case create_client environ of
                 Inl e \<Rightarrow> Some (header, Raised e)
               | Inr (base_url, api_key) \<Rightarrow>
                   (if completions then
                      (case run_chat_completions model stream system envs of
                         (out, r) \<Rightarrow> Some (header @ NewClient base_url api_key # out, chat_outcome r))
                    else
                      (case run_responses_api model stream background system envs of
                         None \<Rightarrow> None
                       | Some (out, r) \<Rightarrow>
                           Some (header @ NewClient base_url api_key # out, chat_outcome r)))))"

text \<open>
  The command-line framework around \<^verbatim>\<open>chat\<close> is not part of the repository. What it does
  with the end of the command is its documented behaviour: a command that returns ends
  the process with exit code 0; a \<^verbatim>\<open>ClickException\<close> is shown as \<^verbatim>\<open>Error: \<close> and its
  message, and the process ends with the exception's exit code, 1.
\<close>

definition cli_exit :: "effect list \<times> outcome \<Rightarrow> effect list \<times> nat option" where
  "cli_exit r =
     (case r of
        (out, Returned) \<Rightarrow> (out, Some 0)
      | (out, Raised e) \<Rightarrow>
          (case e of
             ClickException m \<Rightarrow> (out @ [EchoLn (''Error: '' @ m)], Some 1)
           | _ \<Rightarrow> (out, Some 1))
      | (out, Waiting) \<Rightarrow> (out, None))"

section \<open>Notions the properties are stated with\<close>

text \<open>The invariant of the message list: it is not empty and begins with the system message
  of the configured prompt.\<close>

definition starts_with_system :: "string \<Rightarrow> message list \<Rightarrow> bool" where
  "starts_with_system system messages =
     (case messages of
        [] \<Rightarrow> False
      | m # _ \<Rightarrow> m = \<lparr>role = ''system'', content = Some system\<rparr>)"

text \<open>
  The streaming handler in the words of its description. The delta payload that counts for
  an event: that of an event of type \<^verbatim>\<open>response.output_text.delta\<close> and that of an event
  without a type. What is printed for an event: that payload, or the status marker of a
  \<^verbatim>\<open>queued\<close> or \<^verbatim>\<open>in_progress\<close> event. The text is the concatenation of the payloads.
\<close>

definition counted_delta :: "event \<Rightarrow> string option" where
  "counted_delta ev =
     (if ev_type ev = Some ''response.output_text.delta'' \<or> ev_type ev = None then ev_delta ev
      else None)"

definition streamed_text :: "event list \<Rightarrow> string" where
  "streamed_text evs = concat (List.map_filter counted_delta evs)"

definition event_echo :: "event \<Rightarrow> effect list" where
  "event_echo ev =
     (if ev_type ev = Some ''response.queued'' then [Echo ''[Queued...]'']
      else if ev_type ev = Some ''response.in_progress'' then [Echo ''[Processing...]'']
      else case counted_delta ev of None \<Rightarrow> [] | Some d \<Rightarrow> [Echo d])"

text \<open>
  The identifier an event contributes. As the description has it: the nested identifier of
  a \<^verbatim>\<open>completed\<close> event, or the bare identifier of an event without a type.
\<close>

definition claimed_identifier :: "event \<Rightarrow> string option" where
  "claimed_identifier ev =
     (if ev_type ev = Some ''response.completed'' then
        (case ev_response ev of None \<Rightarrow> None | Some r \<Rightarrow> event_response_id r)
      else if ev_type ev = None then ev_id ev
      else None)"

text \<open>The same with the precedence of the source's \<^verbatim>\<open>elif\<close> chain: an event without a type
  that carries a delta is a delta event, and its identifier is not looked at.\<close>

definition captured_identifier :: "event \<Rightarrow> string option" where
  "captured_identifier ev =
     (if ev_type ev = Some ''response.completed'' then
        (case ev_response ev of None \<Rightarrow> None | Some r \<Rightarrow> event_response_id r)
      else if ev_type ev = None \<and> ev_delta ev = None then ev_id ev
      else None)"

text \<open>The last identifier that the events of a sequence contribute, if any does.\<close>

definition last_identifier :: "(event \<Rightarrow> string option) \<Rightarrow> event list \<Rightarrow> string option" where
  "last_identifier f evs =
     (case List.map_filter f evs of [] \<Rightarrow> None | i # ids \<Rightarrow> Some (last (i # ids)))"

text \<open>
  Polling in the words of its description: a job is pending while its status is
  \<^verbatim>\<open>queued\<close> or \<^verbatim>\<open>in_progress\<close>; the \<open>k\<close>-th poll sleeps one unit, prints the progress
  marker when \<open>k\<close> is a multiple of 5, and fetches the job by its identifier.
\<close>

definition pending :: "response \<Rightarrow> bool" where
  "pending r = (resp_status r = Some ''queued'' \<or> resp_status r = Some ''in_progress'')"

definition poll_step :: "string \<Rightarrow> nat \<Rightarrow> effect list" where
  "poll_step response_id k =
     [Sleep 1] @ (if k mod 5 = 0 then [Echo ''.''] else []) @ [ResponsesRetrieve response_id]"

definition poll_effects :: "string \<Rightarrow> nat \<Rightarrow> effect list" where
  "poll_effects response_id n = concat (map (poll_step response_id) [1..<Suc n])"

text \<open>What a chunk of a streamed chat completion prints: the content of its first choice,
  when it has one.\<close>

definition chunk_echo :: "chunk \<Rightarrow> effect list" where
  "chunk_echo c =
     (case chunk_choices c of
        [] \<Rightarrow> []
      | d # _ \<Rightarrow> (case d of None \<Rightarrow> [] | Some s \<Rightarrow> [Echo s]))"

text \<open>What an iteration prints for a turn that fails with the exception \<open>e\<close> after the
  effects \<open>out\<close> of the body of its \<^verbatim>\<open>try\<close>: the prompt and the label, those effects, the
  error line and an empty line.\<close>

definition failed_turn_effects :: "effect list \<Rightarrow> exn \<Rightarrow> effect list" where
  "failed_turn_effects out e =
     [Prompt ''You: '', EchoLn [], Echo ''Assistant: ''] @ out @
     [EchoLn (''\<newline>Error: '' @ str_exn e), EchoLn []]"

subsection \<open>Example environments\<close>

text \<open>A remote service that refuses every call.\<close>

definition remote_down :: remote where
  "remote_down =
     \<lparr>chat_create = (\<lambda>_. Inl (RemoteError ''connection refused'')),
      chat_create_stream = (\<lambda>_. Inl (RemoteError ''connection refused'')),
      responses_create = (\<lambda>_. Inl (RemoteError ''connection refused'')),
      responses_create_stream = (\<lambda>_. Inl (RemoteError ''connection refused'')),
      responses_retrieve = (\<lambda>_ _. Inl (RemoteError ''connection refused''))\<rparr>"

text \<open>A remote service that answers every request of the Responses API with the given
  response, and fails on every other call.\<close>

definition remote_answering :: "response \<Rightarrow> remote" where
  "remote_answering r = remote_down\<lparr>responses_create := (\<lambda>_. Inr r)\<rparr>"

text \<open>A background job that is queued, then in progress, and completed at the fifth
  retrieval; and the remote service that runs it.\<close>

definition job_at :: "nat \<Rightarrow> response" where
  "job_at k =
     \<lparr>resp_class = ''Response'', resp_id = Some ''resp_1'',
      resp_status = Some (if k = 0 then ''queued'' else if k < 5 then ''in_progress'' else ''completed''),
      resp_output_text = (if k < 5 then None else Some ''done''),
      resp_output = None\<rparr>"

definition remote_job :: remote where
  "remote_job =
     remote_down\<lparr>responses_create := (\<lambda>_. Inr (job_at 0)),
                 responses_retrieve := (\<lambda>k _. Inr (job_at k))\<rparr>"

text \<open>A remote service whose streams break after their first item.\<close>

definition remote_broken_stream :: remote where
  "remote_broken_stream =
     remote_down
       \<lparr>chat_create_stream :=
          (\<lambda>_. Inr [Inr (Chunk [Some ''Hel'']), Inl (RemoteError ''connection lost'')]),
        responses_create_stream :=
          (\<lambda>_. Inr [Inr \<lparr>ev_type = Some ''response.output_text.delta'', ev_delta = Some ''Hel'',
                        ev_response = None, ev_id = None\<rparr>,
                     Inl (RemoteError ''connection lost'')])\<rparr>"

text \<open>A remote service that starts the background job and is lost at the third retrieval.\<close>

definition remote_lost_job :: remote where
  "remote_lost_job =
     remote_down
       \<lparr>responses_create := (\<lambda>_. Inr (job_at 0)),
        responses_retrieve :=
          (\<lambda>k _. if k \<le> 2 then Inr (job_at k) else Inl (RemoteError ''connection lost''))\<rparr>"

text \<open>An event sequence with every shape the handler distinguishes.\<close>

definition sample_events :: "event list" where
  "sample_events =
     [\<lparr>ev_type = Some ''response.queued'', ev_delta = None, ev_response = None, ev_id = None\<rparr>,
      \<lparr>ev_type = Some ''response.in_progress'', ev_delta = None, ev_response = None, ev_id = None\<rparr>,
      \<lparr>ev_type = Some ''response.output_text.delta'', ev_delta = Some ''Hel'',
        ev_response = None, ev_id = None\<rparr>,
      \<lparr>ev_type = None, ev_delta = Some ''lo'', ev_response = None, ev_id = None\<rparr>,
      \<lparr>ev_type = None, ev_delta = None, ev_response = None, ev_id = Some ''resp_0''\<rparr>,
      \<lparr>ev_type = Some ''response.completed'', ev_delta = None,
        ev_response = Some (EventResponse (Some ''resp_1'')), ev_id = None\<rparr>]"

text \<open>An event without a type that carries both a delta and an identifier.\<close>

definition delta_with_id :: event where
  "delta_with_id =
     \<lparr>ev_type = None, ev_delta = Some ''x'', ev_response = None, ev_id = Some ''r1''\<rparr>"

text \<open>A response object with neither the aggregated text nor the structured output.\<close>

definition response_without_output :: response where
  "response_without_output =
     \<lparr>resp_class = ''Response'', resp_id = Some ''resp_1'', resp_status = Some ''completed'',
      resp_output_text = None, resp_output = None\<rparr>"

text \<open>A response whose identifier is the empty string.\<close>

definition response_empty_id :: response where
  "response_empty_id =
     \<lparr>resp_class = ''Response'', resp_id = Some [], resp_status = Some ''completed'',
      resp_output_text = Some ''hello'', resp_output = None\<rparr>"

section \<open>Evaluation of the string functions on the inputs used below\<close>

lemma strip_hi: "strip ''hi'' = ''hi''"
  by code_simp

lemma lower_hi: "lower ''hi'' = ''hi''"
  by code_simp

lemma strip_again: "strip ''again'' = ''again''"
  by code_simp

lemma lower_again: "lower ''again'' = ''again''"
  by code_simp

lemma strip_clear: "strip '' /Clear '' = ''/Clear''"
  by code_simp

lemma lower_clear: "lower ''/Clear'' = ''/clear''"
  by code_simp

lemma strip_quit: "strip ''/QUIT'' = ''/QUIT''"
  by code_simp

lemma lower_quit: "lower ''/QUIT'' = ''/quit''"
  by code_simp

lemma clear_not_exit: "''/clear'' \<notin> EXIT_COMMANDS"
  by (simp add: EXIT_COMMANDS_def)

lemma hi_not_command:
  "strip ''hi'' \<noteq> []" "lower (strip ''hi'') \<notin> {''/quit'', ''/q'', ''/exit'', ''/e''}"
  "lower (strip ''hi'') \<noteq> ''/clear''" "lower (strip ''hi'') \<noteq> ''/status''"
  by (simp_all add: strip_hi lower_hi)

lemma exit_quit: "lower (strip ''/QUIT'') = ''/quit''"
  by code_simp

lemma exit_q: "lower (strip ''/q'') = ''/q''"
  by code_simp

lemma exit_exit: "lower (strip ''/Exit'') = ''/exit''"
  by code_simp

lemma exit_e: "lower (strip '' /E '') = ''/e''"
  by code_simp

lemma triple_ex: "\<exists>a b c. t = (a, b, c)"
  by (metis prod_cases3)

section \<open>The chat command rejects background processing with Chat Completions\<close>

text \<open>
  C7. With both \<^verbatim>\<open>--completions\<close> and \<^verbatim>\<open>--background\<close> the command raises a
  \<^verbatim>\<open>ClickException\<close> whose message names the Responses API as the mode that background
  processing needs, whatever the environment, the other options and the input are. It has
  no effect before that: nothing is printed, no client is constructed and no remote call
  is made. The framework then prints the message and ends the process with exit code 1.
\<close>

theorem chat_rejects_background_with_completions:
  "chat environ model no_stream True True system envs =
     Some ([], Raised (ClickException
       (''Background processing is only available with the Responses API.\<newline>'' @
        ''Remove --completions to use background mode.'')))
   \<and> map_option cli_exit (chat environ model no_stream True True system envs) =
       Some ([EchoLn (''Error: '' @
               ''Background processing is only available with the Responses API.\<newline>'' @
               ''Remove --completions to use background mode.'')], Some 1)"
  by (simp add: chat_def cli_exit_def)

section \<open>The message list of the Chat Completions loop\<close>

lemma completions_try_messages:
  assumes "completions_try rem model stream ms = (out, ms', r)"
  shows "(r = None \<longrightarrow> (\<exists>m. ms' = ms @ [m] \<and> role m = ''assistant''))
         \<and> (r \<noteq> None \<longrightarrow> ms' = ms)"
  using assms
  by (auto simp: completions_try_def Let_def split: if_splits sum.splits prod.splits list.splits)

lemma completions_turn_result:
  "\<exists>out ms'. completions_turn rem model stream ms u = (out, Continue ms') \<and>
      (ms' = ms \<or>
       (\<exists>m. ms' = ms @ [\<lparr>role = ''user'', content = Some u\<rparr>, m] \<and> role m = ''assistant''))"
proof -
  obtain out ms2 r where
    t: "completions_try rem model stream (ms @ [\<lparr>role = ''user'', content = Some u\<rparr>]) = (out, ms2, r)"
    by (metis prod_cases3)
  note m = completions_try_messages [OF t]
  show ?thesis
  proof (cases r)
    case None
    with m t show ?thesis by (auto simp: completions_turn_def Let_def)
  next
    case (Some e)
    with m t show ?thesis by (auto simp: completions_turn_def Let_def pop_def)
  qed
qed

lemma starts_with_system_append:
  "starts_with_system system ms \<Longrightarrow> starts_with_system system (ms @ xs)"
  by (cases ms) (simp_all add: starts_with_system_def)

lemma completions_iteration_Continue:
  assumes "completions_iteration model stream system env ms = (out, Continue ms')"
  shows "ms' = ms \<or> ms' = [\<lparr>role = ''system'', content = Some system\<rparr>]
           \<or> (\<exists>u m. ms' = ms @ [\<lparr>role = ''user'', content = Some u\<rparr>, m])"
proof (cases "prompt_result env")
  case (Inl e)
  with assms show ?thesis by (simp add: completions_iteration_def split: if_splits)
next
  case (Inr line)
  obtain o2 m2 where
    t: "completions_turn (remote_of env) model stream ms (strip line) = (o2, Continue m2)"
    and m2: "m2 = ms \<or>
      (\<exists>m. m2 = ms @ [\<lparr>role = ''user'', content = Some (strip line)\<rparr>, m] \<and> role m = ''assistant'')"
    using completions_turn_result by blast
  from assms Inr t m2 show ?thesis
    by (auto simp: completions_iteration_def Let_def split: if_splits)
qed

lemma completions_iteration_invariant:
  assumes "starts_with_system system ms"
    and "completions_iteration model stream system env ms = (out, Continue ms')"
  shows "starts_with_system system ms'"
  using completions_iteration_Continue [OF assms(2)] assms(1)
  by (auto simp: starts_with_system_append) (simp add: starts_with_system_def)

lemma completions_loop_invariant:
  "starts_with_system system ms \<Longrightarrow>
   completions_loop model stream system envs ms = (out, Continue ms') \<Longrightarrow>
   starts_with_system system ms'"
proof (induction envs arbitrary: ms out)
  case Nil
  then show ?case by simp
next
  case (Cons env envs)
  obtain o1 r1 where it: "completions_iteration model stream system env ms = (o1, r1)"
    by (cases "completions_iteration model stream system env ms")
  show ?case
  proof (cases r1)
    case (Continue ms1)
    obtain o2 r2 where lp: "completions_loop model stream system envs ms1 = (o2, r2)"
      by (cases "completions_loop model stream system envs ms1")
    from Cons.prems(2) it Continue lp have "r2 = Continue ms'" by simp
    moreover have "starts_with_system system ms1"
      using completions_iteration_invariant Cons.prems(1) it Continue by blast
    ultimately show ?thesis using Cons.IH lp by blast
  next
    case Break
    with Cons.prems(2) it show ?thesis by simp
  next
    case (Raise e)
    with Cons.prems(2) it show ?thesis by simp
  qed
qed

text \<open>A stream that raises after chunks that each have a choice: the loop over it prints the
  contents of those chunks and ends in that exception.\<close>

lemma consume_chunks_raise:
  "\<forall>c\<in>set chunks. chunk_choices c \<noteq> [] \<Longrightarrow>
   consume_chunks (map Inr chunks @ Inl e # rest) t = (concat (map chunk_echo chunks), Inl e)"
proof (induction chunks arbitrary: t)
  case Nil
  then show ?case by simp
next
  case (Cons c cs)
  then obtain d ds where c: "chunk_choices c = d # ds" by (cases "chunk_choices c") auto
  from Cons have ih: "\<And>t. consume_chunks (map Inr cs @ Inl e # rest) t = (concat (map chunk_echo cs), Inl e)"
    by simp
  have ce: "chunk_echo c = (case d of None \<Rightarrow> [] | Some s \<Rightarrow> [Echo s])"
    by (simp add: chunk_echo_def c)
  show ?case
    by (cases d) (simp_all add: c ih ce)
qed

text \<open>Whatever exception ends the body of the \<^verbatim>\<open>try\<close>, the iteration prints it and ends at
  the loop head with the message list it started with.\<close>

lemma completions_exception_rolls_back:
  assumes "prompt_result env = Inr line"
    and "strip line \<noteq> []"
    and "lower (strip line) \<notin> {''/quit'', ''/q'', ''/exit'', ''/e''}"
    and "lower (strip line) \<noteq> ''/clear''"
    and "lower (strip line) \<noteq> ''/status''"
    and "completions_try (remote_of env) model stream
           (messages @ [\<lparr>role = ''user'', content = Some (strip line)\<rparr>]) = (out, messages', Some e)"
  shows "completions_iteration model stream system env messages =
           (failed_turn_effects out e, Continue messages)"
proof -
  have m: "messages' = messages @ [\<lparr>role = ''user'', content = Some (strip line)\<rparr>]"
    using completions_try_messages [OF assms(6)] by simp
  show ?thesis
    using assms m
    by (simp add: completions_iteration_def completions_turn_def Let_def pop_def
        failed_turn_effects_def EXIT_COMMANDS_def)
qed

text \<open>
  C1. In completions mode, take a turn: the prompt returned a line that, stripped, is not
  empty and is no command. If the call to the remote service raises an exception \<open>e\<close>
  (the plain call when not streaming; when streaming, the call that opens the stream, or
  the stream itself after any number of chunks), then the iteration prints the request,
  what the stream delivered before it broke, and the error line with the text of \<open>e\<close>,
  and it ends at the loop head with exactly the message list it started with: the user's
  message is gone and nothing else is changed. From there the loop runs its next
  iterations.
\<close>

theorem completions_failed_turn_rolls_back:
  assumes "prompt_result env = Inr line"
    and "strip line \<noteq> []"
    and "lower (strip line) \<notin> {''/quit'', ''/q'', ''/exit'', ''/e''}"
    and "lower (strip line) \<noteq> ''/clear''"
    and "lower (strip line) \<noteq> ''/status''"
  shows "(\<not> stream \<and>
          chat_create (remote_of env)
            \<lparr>chat_model = model,
             chat_messages = messages @ [\<lparr>role = ''user'', content = Some (strip line)\<rparr>],
             chat_stream = None\<rparr> = Inl e
          \<longrightarrow> completions_iteration model stream system env messages =
                (failed_turn_effects
                   [ChatCreate
                      \<lparr>chat_model = model,
                       chat_messages = messages @ [\<lparr>role = ''user'', content = Some (strip line)\<rparr>],
                       chat_stream = None\<rparr>] e,
                 Continue messages))
       \<and> (stream \<and>
          chat_create_stream (remote_of env)
            \<lparr>chat_model = model,
             chat_messages = messages @ [\<lparr>role = ''user'', content = Some (strip line)\<rparr>],
             chat_stream = Some True\<rparr> = Inl e
          \<longrightarrow> completions_iteration model stream system env messages =
                (failed_turn_effects
                   [ChatCreate
                      \<lparr>chat_model = model,
                       chat_messages = messages @ [\<lparr>role = ''user'', content = Some (strip line)\<rparr>],
                       chat_stream = Some True\<rparr>] e,
                 Continue messages))
       \<and> (stream \<and>
          chat_create_stream (remote_of env)
            \<lparr>chat_model = model,
             chat_messages = messages @ [\<lparr>role = ''user'', content = Some (strip line)\<rparr>],
             chat_stream = Some True\<rparr> = Inr (map Inr chunks @ Inl e # rest) \<and>
          (\<forall>c\<in>set chunks. chunk_choices c \<noteq> [])
          \<longrightarrow> completions_iteration model stream system env messages =
                (failed_turn_effects
                   (ChatCreate
                      \<lparr>chat_model = model,
                       chat_messages = messages @ [\<lparr>role = ''user'', content = Some (strip line)\<rparr>],
                       chat_stream = Some True\<rparr> # concat (map chunk_echo chunks)) e,
                 Continue messages))
       \<and> (\<forall>out. completions_iteration model stream system env messages = (out, Continue messages)
          \<longrightarrow> completions_loop model stream system (env # envs) messages =
                (case completions_loop model stream system envs messages of
                   (out', r) \<Rightarrow> (out @ out', r)))"
proof (intro conjI impI allI)
  let ?ms = "messages @ [\<lparr>role = ''user'', content = Some (strip line)\<rparr>]"
  assume a: "\<not> stream \<and>
          chat_create (remote_of env)
            \<lparr>chat_model = model, chat_messages = ?ms, chat_stream = None\<rparr> = Inl e"
  then have "completions_try (remote_of env) model stream ?ms =
      ([ChatCreate \<lparr>chat_model = model, chat_messages = ?ms, chat_stream = None\<rparr>], ?ms, Some e)"
    by (simp add: completions_try_def)
  then show "completions_iteration model stream system env messages =
                (failed_turn_effects
                   [ChatCreate \<lparr>chat_model = model, chat_messages = ?ms, chat_stream = None\<rparr>] e,
                 Continue messages)"
    by (rule completions_exception_rolls_back [OF assms])
next
  let ?ms = "messages @ [\<lparr>role = ''user'', content = Some (strip line)\<rparr>]"
  assume a: "stream \<and>
          chat_create_stream (remote_of env)
            \<lparr>chat_model = model, chat_messages = ?ms, chat_stream = Some True\<rparr> = Inl e"
  then have "completions_try (remote_of env) model stream ?ms =
      ([ChatCreate \<lparr>chat_model = model, chat_messages = ?ms, chat_stream = Some True\<rparr>], ?ms, Some e)"
    by (simp add: completions_try_def)
  then show "completions_iteration model stream system env messages =
                (failed_turn_effects
                   [ChatCreate \<lparr>chat_model = model, chat_messages = ?ms, chat_stream = Some True\<rparr>] e,
                 Continue messages)"
    by (rule completions_exception_rolls_back [OF assms])
next
  let ?ms = "messages @ [\<lparr>role = ''user'', content = Some (strip line)\<rparr>]"
  assume a: "stream \<and>
          chat_create_stream (remote_of env)
            \<lparr>chat_model = model, chat_messages = ?ms, chat_stream = Some True\<rparr>
              = Inr (map Inr chunks @ Inl e # rest) \<and>
          (\<forall>c\<in>set chunks. chunk_choices c \<noteq> [])"
  then have "consume_chunks (map Inr chunks @ Inl e # rest) [] = (concat (map chunk_echo chunks), Inl e)"
    by (intro consume_chunks_raise) simp
  with a have "completions_try (remote_of env) model stream ?ms =
      (ChatCreate \<lparr>chat_model = model, chat_messages = ?ms, chat_stream = Some True\<rparr>
         # concat (map chunk_echo chunks), ?ms, Some e)"
    by (simp add: completions_try_def)
  then show "completions_iteration model stream system env messages =
                (failed_turn_effects
                   (ChatCreate \<lparr>chat_model = model, chat_messages = ?ms, chat_stream = Some True\<rparr>
                      # concat (map chunk_echo chunks)) e,
                 Continue messages)"
    by (rule completions_exception_rolls_back [OF assms])
next
  fix out
  assume "completions_iteration model stream system env messages = (out, Continue messages)"
  then show "completions_loop model stream system (env # envs) messages =
                (case completions_loop model stream system envs messages of
                   (out', r) \<Rightarrow> (out @ out', r))"
    by simp
qed

theorem completions_failed_turn_rolls_back_witness:
  "completions_iteration ''m'' False ''s'' \<lparr>prompt_result = Inr ''hi'', remote_of = remote_down\<rparr>
       [\<lparr>role = ''system'', content = Some ''s''\<rparr>]
     = ([Prompt ''You: '', EchoLn [], Echo ''Assistant: '',
         ChatCreate \<lparr>chat_model = ''m'',
           chat_messages = [\<lparr>role = ''system'', content = Some ''s''\<rparr>,
                            \<lparr>role = ''user'', content = Some ''hi''\<rparr>],
           chat_stream = None\<rparr>,
         EchoLn ''\<newline>Error: connection refused'', EchoLn []],
        Continue [\<lparr>role = ''system'', content = Some ''s''\<rparr>])
   \<and> completions_iteration ''m'' True ''s'' \<lparr>prompt_result = Inr ''hi'', remote_of = remote_down\<rparr>
       [\<lparr>role = ''system'', content = Some ''s''\<rparr>]
     = ([Prompt ''You: '', EchoLn [], Echo ''Assistant: '',
         ChatCreate \<lparr>chat_model = ''m'',
           chat_messages = [\<lparr>role = ''system'', content = Some ''s''\<rparr>,
                            \<lparr>role = ''user'', content = Some ''hi''\<rparr>],
           chat_stream = Some True\<rparr>,
         EchoLn ''\<newline>Error: connection refused'', EchoLn []],
        Continue [\<lparr>role = ''system'', content = Some ''s''\<rparr>])
   \<and> completions_iteration ''m'' True ''s''
       \<lparr>prompt_result = Inr ''hi'', remote_of = remote_broken_stream\<rparr>
       [\<lparr>role = ''system'', content = Some ''s''\<rparr>]
     = ([Prompt ''You: '', EchoLn [], Echo ''Assistant: '',
         ChatCreate \<lparr>chat_model = ''m'',
           chat_messages = [\<lparr>role = ''system'', content = Some ''s''\<rparr>,
                            \<lparr>role = ''user'', content = Some ''hi''\<rparr>],
           chat_stream = Some True\<rparr>,
         Echo ''Hel'',
         EchoLn ''\<newline>Error: connection lost'', EchoLn []],
        Continue [\<lparr>role = ''system'', content = Some ''s''\<rparr>])
   \<and> completions_loop ''m'' True ''s''
       [\<lparr>prompt_result = Inr ''hi'', remote_of = remote_broken_stream\<rparr>,
        \<lparr>prompt_result = Inr ''/QUIT'', remote_of = remote_down\<rparr>]
       [\<lparr>role = ''system'', content = Some ''s''\<rparr>]
     = ([Prompt ''You: '', EchoLn [], Echo ''Assistant: '',
         ChatCreate \<lparr>chat_model = ''m'',
           chat_messages = [\<lparr>role = ''system'', content = Some ''s''\<rparr>,
                            \<lparr>role = ''user'', content = Some ''hi''\<rparr>],
           chat_stream = Some True\<rparr>,
         Echo ''Hel'',
         EchoLn ''\<newline>Error: connection lost'', EchoLn [],
         Prompt ''You: '', EchoLn ''Goodbye!''],
        Break)"
proof -
  let ?sys = "[\<lparr>role = ''system'', content = Some ''s''\<rparr>]"
  let ?down = "\<lparr>prompt_result = Inr ''hi'', remote_of = remote_down\<rparr>"
  let ?broken = "\<lparr>prompt_result = Inr ''hi'', remote_of = remote_broken_stream\<rparr>"
  let ?quit = "\<lparr>prompt_result = Inr ''/QUIT'', remote_of = remote_down\<rparr>"
  have d: "prompt_result ?down = Inr ''hi''" and b: "prompt_result ?broken = Inr ''hi''"
    by simp_all
  have a1: "\<not> False \<and> chat_create (remote_of ?down)
            \<lparr>chat_model = ''m'',
             chat_messages = ?sys @ [\<lparr>role = ''user'', content = Some (strip ''hi'')\<rparr>],
             chat_stream = None\<rparr> = Inl (RemoteError ''connection refused'')"
    by (simp add: remote_down_def)
  have a2: "True \<and> chat_create_stream (remote_of ?down)
            \<lparr>chat_model = ''m'',
             chat_messages = ?sys @ [\<lparr>role = ''user'', content = Some (strip ''hi'')\<rparr>],
             chat_stream = Some True\<rparr> = Inl (RemoteError ''connection refused'')"
    by (simp add: remote_down_def)
  have a3: "True \<and> chat_create_stream (remote_of ?broken)
            \<lparr>chat_model = ''m'',
             chat_messages = ?sys @ [\<lparr>role = ''user'', content = Some (strip ''hi'')\<rparr>],
             chat_stream = Some True\<rparr>
              = Inr (map Inr [Chunk [Some ''Hel'']] @ Inl (RemoteError ''connection lost'') # [])
          \<and> (\<forall>c\<in>set [Chunk [Some ''Hel'']]. chunk_choices c \<noteq> [])"
    by (simp add: remote_broken_stream_def remote_down_def)
  note r1 = completions_failed_turn_rolls_back [OF d hi_not_command, THEN conjunct1, rule_format, OF a1]
  note r2 = completions_failed_turn_rolls_back [OF d hi_not_command, THEN conjunct2, THEN conjunct1, rule_format, OF a2]
  note r3 = completions_failed_turn_rolls_back [OF b hi_not_command, THEN conjunct2, THEN conjunct2, THEN conjunct1, rule_format, OF a3]
  note r4 = completions_failed_turn_rolls_back [where envs = "[?quit]", OF b hi_not_command, THEN conjunct2, THEN conjunct2,
      THEN conjunct2, rule_format, OF r3]
  have q: "completions_loop ''m'' True ''s'' [?quit] ?sys = ([Prompt ''You: '', EchoLn ''Goodbye!''], Break)"
    by (simp add: completions_iteration_def strip_quit lower_quit EXIT_COMMANDS_def)
  from r1 r2 r3 r4 q show ?thesis
    by (simp add: failed_turn_effects_def strip_hi chunk_echo_def)
qed

text \<open>
  C9. In completions mode, when the line read is \<^verbatim>\<open>/clear\<close> (in any case of the letters,
  white space around it stripped), the iteration ends at the loop head with the message
  list that holds the system message of the configured prompt and nothing else, whatever
  the list was before.
\<close>

theorem clear_resets_messages:
  assumes "prompt_result env = Inr line" and "lower (strip line) = ''/clear''"
  shows "completions_iteration model stream system env messages =
           ([Prompt ''You: '', EchoLn ''Conversation cleared.\<newline>''],
            Continue [\<lparr>role = ''system'', content = Some system\<rparr>])"
proof -
  have "strip line \<noteq> []" using assms(2) by (auto simp: lower_def)
  then show ?thesis using assms clear_not_exit
    by (simp add: completions_iteration_def Let_def)
qed

theorem clear_resets_messages_witness:
  "completions_iteration ''m'' True ''s'' \<lparr>prompt_result = Inr '' /Clear '', remote_of = remote_down\<rparr>
       [\<lparr>role = ''system'', content = Some ''s''\<rparr>, \<lparr>role = ''user'', content = Some ''hi''\<rparr>,
        \<lparr>role = ''assistant'', content = Some ''hello''\<rparr>]
     = ([Prompt ''You: '', EchoLn ''Conversation cleared.\<newline>''],
        Continue [\<lparr>role = ''system'', content = Some ''s''\<rparr>])"
proof -
  let ?env = "\<lparr>prompt_result = Inr '' /Clear '', remote_of = remote_down\<rparr>"
  have h1: "prompt_result ?env = Inr '' /Clear ''" by simp
  have h2: "lower (strip '' /Clear '') = ''/clear''" by (simp add: strip_clear lower_clear)
  show ?thesis by (rule clear_resets_messages [OF h1 h2])
qed

text \<open>
  C10. In completions mode the message list is never empty and its first element is the
  system message of the configured prompt: the initial list is so, every iteration that
  ends at the loop head keeps it so (a successful turn, a failed turn with its rollback,
  \<^verbatim>\<open>/clear\<close>, \<^verbatim>\<open>/status\<close> and an empty line alike), and so it holds of the list after any
  number of iterations.
\<close>

theorem system_message_stays_first:
  "starts_with_system system [\<lparr>role = ''system'', content = Some system\<rparr>]
   \<and> (\<forall>env ms out ms'. starts_with_system system ms \<and>
         completions_iteration model stream system env ms = (out, Continue ms')
         \<longrightarrow> starts_with_system system ms')
   \<and> (\<forall>envs out ms. run_chat_completions model stream system envs = (out, Continue ms)
         \<longrightarrow> ms \<noteq> [] \<and> hd ms = \<lparr>role = ''system'', content = Some system\<rparr>)"
proof (intro conjI allI impI)
  show "starts_with_system system [\<lparr>role = ''system'', content = Some system\<rparr>]"
    by (simp add: starts_with_system_def)
next
  fix env ms out ms'
  assume "starts_with_system system ms \<and>
         completions_iteration model stream system env ms = (out, Continue ms')"
  then show "starts_with_system system ms'"
    using completions_iteration_invariant by blast
next
  fix envs out ms
  assume r: "run_chat_completions model stream system envs = (out, Continue ms)"
  have s: "starts_with_system system ms"
    using completions_loop_invariant
      [of system "[\<lparr>role = ''system'', content = Some system\<rparr>]" model stream envs out ms] r
    by (simp add: run_chat_completions_def starts_with_system_def)
  then show "ms \<noteq> []" by (cases ms) (simp_all add: starts_with_system_def)
  from s show "hd ms = \<lparr>role = ''system'', content = Some system\<rparr>"
    by (cases ms) (simp_all add: starts_with_system_def)
qed

theorem system_message_stays_first_witness:
  "run_chat_completions ''m'' False ''s''
      [\<lparr>prompt_result = Inr ''hi'', remote_of = remote_down\<rparr>]
     = ([Prompt ''You: '', EchoLn [], Echo ''Assistant: '',
         ChatCreate \<lparr>chat_model = ''m'',
           chat_messages = [\<lparr>role = ''system'', content = Some ''s''\<rparr>,
                            \<lparr>role = ''user'', content = Some ''hi''\<rparr>],
           chat_stream = None\<rparr>,
         EchoLn ''\<newline>Error: connection refused'', EchoLn []],
        Continue [\<lparr>role = ''system'', content = Some ''s''\<rparr>])
   \<and> [\<lparr>role = ''system'', content = Some ''s''\<rparr>] \<noteq> []
   \<and> hd [\<lparr>role = ''system'', content = Some ''s''\<rparr>] = \<lparr>role = ''system'', content = Some ''s''\<rparr>"
proof -
  have r: "run_chat_completions ''m'' False ''s''
      [\<lparr>prompt_result = Inr ''hi'', remote_of = remote_down\<rparr>]
     = ([Prompt ''You: '', EchoLn [], Echo ''Assistant: '',
         ChatCreate \<lparr>chat_model = ''m'',
           chat_messages = [\<lparr>role = ''system'', content = Some ''s''\<rparr>,
                            \<lparr>role = ''user'', content = Some ''hi''\<rparr>],
           chat_stream = None\<rparr>,
         EchoLn ''\<newline>Error: connection refused'', EchoLn []],
        Continue [\<lparr>role = ''system'', content = Some ''s''\<rparr>])"
    by (simp add: run_chat_completions_def completions_iteration_def completions_turn_def
        completions_try_def pop_def remote_down_def strip_hi lower_hi EXIT_COMMANDS_def)
  note inv = system_message_stays_first
    [of "''s''" "''m''" False, THEN conjunct2, THEN conjunct2, rule_format, OF r]
  from r inv show ?thesis by simp
qed

section \<open>Exit commands\<close>

lemma isspace_lower_char: "isspace c \<Longrightarrow> lower_char c = c"
  by (auto simp: isspace_def lower_char_def Let_def)

lemma not_isspace_lower: "\<not> isspace (lower_char c) \<Longrightarrow> \<not> isspace c"
  using isspace_lower_char by force

lemma command_chars:
  "\<not> isspace (CHR ''/'')" "\<not> isspace (CHR ''t'')" "\<not> isspace (CHR ''q'')" "\<not> isspace (CHR ''e'')"
  by (simp_all add: isspace_def)

lemma strip_id:
  assumes "s \<noteq> []" and "\<not> isspace (hd s)" and "\<not> isspace (last s)"
  shows "strip s = s"
proof -
  from assms(1,2) have a: "dropWhile isspace s = s" by (cases s) simp_all
  from assms(1,3) have b: "dropWhile isspace (rev s) = rev s"
    by (cases "rev s") (simp_all add: last_rev [symmetric] hd_rev)
  show ?thesis by (simp add: strip_def a b)
qed

text \<open>A line that is an exit command up to the case of its letters has no white space at
  either end, so stripping leaves it as it is.\<close>

lemma lower_exit_strip:
  assumes "lower line \<in> EXIT_COMMANDS"
  shows "strip line = line"
proof -
  from assms have ne: "line \<noteq> []" by (auto simp: EXIT_COMMANDS_def lower_def)
  have h: "hd (lower line) = CHR ''/''"
    using assms by (auto simp: EXIT_COMMANDS_def)
  have l: "last (lower line) \<in> {CHR ''t'', CHR ''q'', CHR ''e''}"
    using assms by (auto simp: EXIT_COMMANDS_def)
  have "hd (lower line) = lower_char (hd line)" using ne by (simp add: lower_def hd_map)
  with h have 1: "\<not> isspace (hd line)" using not_isspace_lower command_chars by metis
  have "last (lower line) = lower_char (last line)" using ne by (simp add: lower_def last_map)
  with l have 2: "\<not> isspace (last line)" using not_isspace_lower command_chars by auto
  show ?thesis using strip_id ne 1 2 by blast
qed

lemma lower_exit_strip_lit:
  assumes "lower line \<in> {''/quit'', ''/q'', ''/exit'', ''/e''}"
  shows "strip line = line"
  using assms lower_exit_strip by (simp add: EXIT_COMMANDS_def)

text \<open>
  C8. In both loops: when the lower-cased form of the (stripped) line is one of
  \<^verbatim>\<open>/quit\<close>, \<^verbatim>\<open>/q\<close>, \<^verbatim>\<open>/exit\<close>, \<^verbatim>\<open>/e\<close>, the iteration prints the farewell and breaks the
  loop; a line whose own lower-cased form is one of them is such a line. Every other line
  that is not empty after stripping does not end the loop: the completions iteration ends
  at the loop head; the responses iteration, whenever it ends, ends at the loop head, and
  it does end in every request shape but background polling, whose end depends on the
  remote job.
\<close>

theorem exit_commands_end_the_loop:
  assumes "prompt_result env = Inr line"
  shows "(lower (strip line) \<in> {''/quit'', ''/q'', ''/exit'', ''/e''} \<longrightarrow>
            completions_iteration model stream system env messages =
              ([Prompt ''You: '', EchoLn ''Goodbye!''], Break)
          \<and> responses_iteration model stream background system env previous_response_id =
              Some ([Prompt ''You: '', EchoLn ''Goodbye!''], Break))
       \<and> (lower line \<in> {''/quit'', ''/q'', ''/exit'', ''/e''} \<longrightarrow>
            lower (strip line) \<in> {''/quit'', ''/q'', ''/exit'', ''/e''})
       \<and> (strip line \<noteq> [] \<and> lower (strip line) \<notin> {''/quit'', ''/q'', ''/exit'', ''/e''} \<longrightarrow>
            (\<exists>out messages'. completions_iteration model stream system env messages =
                (out, Continue messages'))
          \<and> (\<forall>out r. responses_iteration model stream background system env previous_response_id =
                Some (out, r) \<longrightarrow> (\<exists>p. r = Continue p))
          \<and> (stream \<or> \<not> background \<longrightarrow>
                (\<exists>out p. responses_iteration model stream background system env previous_response_id =
                   Some (out, Continue p))))"
proof (intro conjI impI)
  assume x: "lower (strip line) \<in> {''/quit'', ''/q'', ''/exit'', ''/e''}"
  then have ne: "strip line \<noteq> []" by (auto simp: lower_def)
  show "completions_iteration model stream system env messages =
              ([Prompt ''You: '', EchoLn ''Goodbye!''], Break)"
    using assms x ne by (simp add: completions_iteration_def Let_def EXIT_COMMANDS_def)
  show "responses_iteration model stream background system env previous_response_id =
              Some ([Prompt ''You: '', EchoLn ''Goodbye!''], Break)"
    using assms x ne by (simp add: responses_iteration_def Let_def EXIT_COMMANDS_def)
next
  assume "lower line \<in> {''/quit'', ''/q'', ''/exit'', ''/e''}"
  then show "lower (strip line) \<in> {''/quit'', ''/q'', ''/exit'', ''/e''}"
    by (simp add: lower_exit_strip_lit)
next
  assume n: "strip line \<noteq> [] \<and> lower (strip line) \<notin> {''/quit'', ''/q'', ''/exit'', ''/e''}"
  obtain o2 m2 where
    "completions_turn (remote_of env) model stream messages (strip line) = (o2, Continue m2)"
    using completions_turn_result by blast
  then show "\<exists>out messages'. completions_iteration model stream system env messages =
                (out, Continue messages')"
    using assms n by (simp add: completions_iteration_def Let_def EXIT_COMMANDS_def)
next
  assume n: "strip line \<noteq> [] \<and> lower (strip line) \<notin> {''/quit'', ''/q'', ''/exit'', ''/e''}"
  show "\<forall>out r. responses_iteration model stream background system env previous_response_id =
                Some (out, r) \<longrightarrow> (\<exists>p. r = Continue p)"
    using assms n
    by (auto simp: responses_iteration_def Let_def EXIT_COMMANDS_def
        split: if_splits option.splits prod.splits)
next
  assume n: "strip line \<noteq> [] \<and> lower (strip line) \<notin> {''/quit'', ''/q'', ''/exit'', ''/e''}"
    and s: "stream \<or> \<not> background"
  have "\<exists>x. responses_try (remote_of env) model stream background system (strip line)
             previous_response_id = Some x"
    using s by (cases stream; cases background) (simp_all add: responses_try_def Let_def triple_ex)
  then obtain o2 p2 r2 where
    "responses_try (remote_of env) model stream background system (strip line) previous_response_id
       = Some (o2, p2, r2)"
    by (metis prod_cases3)
  then show "\<exists>out p. responses_iteration model stream background system env previous_response_id =
                   Some (out, Continue p)"
    using assms n
    by (cases r2) (auto simp: responses_iteration_def Let_def EXIT_COMMANDS_def)
qed

theorem exit_commands_end_the_loop_witness:
  "completions_iteration ''m'' True ''s'' \<lparr>prompt_result = Inr ''/QUIT'', remote_of = remote_down\<rparr>
       [\<lparr>role = ''system'', content = Some ''s''\<rparr>]
     = ([Prompt ''You: '', EchoLn ''Goodbye!''], Break)
   \<and> responses_iteration ''m'' True False ''s''
       \<lparr>prompt_result = Inr ''/QUIT'', remote_of = remote_down\<rparr> None
     = Some ([Prompt ''You: '', EchoLn ''Goodbye!''], Break)
   \<and> completions_iteration ''m'' True ''s'' \<lparr>prompt_result = Inr ''/q'', remote_of = remote_down\<rparr>
       [\<lparr>role = ''system'', content = Some ''s''\<rparr>]
     = ([Prompt ''You: '', EchoLn ''Goodbye!''], Break)
   \<and> responses_iteration ''m'' True False ''s''
       \<lparr>prompt_result = Inr ''/q'', remote_of = remote_down\<rparr> None
     = Some ([Prompt ''You: '', EchoLn ''Goodbye!''], Break)
   \<and> completions_iteration ''m'' True ''s'' \<lparr>prompt_result = Inr ''/Exit'', remote_of = remote_down\<rparr>
       [\<lparr>role = ''system'', content = Some ''s''\<rparr>]
     = ([Prompt ''You: '', EchoLn ''Goodbye!''], Break)
   \<and> responses_iteration ''m'' True False ''s''
       \<lparr>prompt_result = Inr ''/Exit'', remote_of = remote_down\<rparr> None
     = Some ([Prompt ''You: '', EchoLn ''Goodbye!''], Break)
   \<and> completions_iteration ''m'' True ''s'' \<lparr>prompt_result = Inr '' /E '', remote_of = remote_down\<rparr>
       [\<lparr>role = ''system'', content = Some ''s''\<rparr>]
     = ([Prompt ''You: '', EchoLn ''Goodbye!''], Break)
   \<and> responses_iteration ''m'' True False ''s''
       \<lparr>prompt_result = Inr '' /E '', remote_of = remote_down\<rparr> None
     = Some ([Prompt ''You: '', EchoLn ''Goodbye!''], Break)
   \<and> (\<exists>out messages'.
         completions_iteration ''m'' True ''s'' \<lparr>prompt_result = Inr ''hi'', remote_of = remote_down\<rparr>
           [\<lparr>role = ''system'', content = Some ''s''\<rparr>]
         = (out, Continue messages'))
   \<and> (\<exists>out p.
         responses_iteration ''m'' True False ''s''
           \<lparr>prompt_result = Inr ''hi'', remote_of = remote_down\<rparr> None
         = Some (out, Continue p))"
proof -
  let ?hi = "\<lparr>prompt_result = Inr ''hi'', remote_of = remote_down\<rparr>"
  have ends: "completions_iteration ''m'' True ''s'' \<lparr>prompt_result = Inr line, remote_of = remote_down\<rparr>
         [\<lparr>role = ''system'', content = Some ''s''\<rparr>]
       = ([Prompt ''You: '', EchoLn ''Goodbye!''], Break)
     \<and> responses_iteration ''m'' True False ''s''
         \<lparr>prompt_result = Inr line, remote_of = remote_down\<rparr> None
       = Some ([Prompt ''You: '', EchoLn ''Goodbye!''], Break)"
    if "lower (strip line) \<in> {''/quit'', ''/q'', ''/exit'', ''/e''}" for line
  proof -
    have p: "prompt_result \<lparr>prompt_result = Inr line, remote_of = remote_down\<rparr> = Inr line"
      by simp
    show ?thesis
      by (rule exit_commands_end_the_loop [OF p, THEN conjunct1, rule_format, OF that])
  qed
  have h1: "prompt_result ?hi = Inr ''hi''" by simp
  have h2: "strip ''hi'' \<noteq> [] \<and> lower (strip ''hi'') \<notin> {''/quit'', ''/q'', ''/exit'', ''/e''}"
    using hi_not_command by simp
  note hi = exit_commands_end_the_loop
    [where model = "''m''" and stream = True and system = "''s''" and background = False
       and messages = "[\<lparr>role = ''system'', content = Some ''s''\<rparr>]"
       and previous_response_id = None,
     OF h1, THEN conjunct2, THEN conjunct2, rule_format, OF h2]
  have q1: "lower (strip ''/QUIT'') \<in> {''/quit'', ''/q'', ''/exit'', ''/e''}"
    by (simp add: exit_quit)
  have q2: "lower (strip ''/q'') \<in> {''/quit'', ''/q'', ''/exit'', ''/e''}"
    by (simp add: exit_q)
  have q3: "lower (strip ''/Exit'') \<in> {''/quit'', ''/q'', ''/exit'', ''/e''}"
    by (simp add: exit_exit)
  have q4: "lower (strip '' /E '') \<in> {''/quit'', ''/q'', ''/exit'', ''/e''}"
    by (simp add: exit_e)
  from ends [OF q1] ends [OF q2] ends [OF q3] ends [OF q4] hi show ?thesis by simp
qed

section \<open>The streaming handler\<close>

text \<open>One event, as the source treats it, in the terms of the description.\<close>

lemma process_event_eq:
  "process_event ev t i =
     (event_echo ev,
      t @ (case counted_delta ev of None \<Rightarrow> [] | Some d \<Rightarrow> d),
      (case captured_identifier ev of None \<Rightarrow> i | Some j \<Rightarrow> Some j))"
  by (cases "ev_type ev"; cases "ev_delta ev"; cases "ev_response ev"; cases "ev_id ev")
     (auto simp: process_event_def event_echo_def counted_delta_def captured_identifier_def
        split: option.splits)

lemma last_identifier_Cons:
  "last_identifier f (ev # evs) =
     (case last_identifier f evs of
        Some j \<Rightarrow> Some j
      | None \<Rightarrow> f ev)"
  by (auto simp: last_identifier_def split: option.splits list.splits)

lemma process_events_eq:
  "process_events (map Inr evs) t i =
     (concat (map event_echo evs),
      Inr (t @ streamed_text evs,
           (case last_identifier captured_identifier evs of None \<Rightarrow> i | Some j \<Rightarrow> Some j)))"
proof (induction evs arbitrary: t i)
  case Nil
  then show ?case by (simp add: streamed_text_def last_identifier_def)
next
  case (Cons ev evs)
  show ?case
    by (simp add: process_event_eq Cons.IH streamed_text_def last_identifier_Cons
        split: option.splits)
qed

text \<open>
  C5, as the code has it. For every finite sequence of events that the stream yields: the
  handler prints, in order, the delta payloads that count and the status markers of the
  \<^verbatim>\<open>queued\<close> and \<^verbatim>\<open>in_progress\<close> events, then a newline; the text it returns is the
  concatenation, in order, of the delta payloads of the events of type
  \<^verbatim>\<open>response.output_text.delta\<close> and of the events without a type; the identifier it
  returns is the last one contributed by a \<^verbatim>\<open>completed\<close> event (its nested identifier) or
  by an event without a type that carries an identifier and no delta, and none if there is
  no such event. The caller stores the returned identifier when one was captured and it is
  not empty, and otherwise leaves the stored identifier as it is.
\<close>

theorem streaming_events_result:
  "process_streaming_events (map Inr evs) =
     (concat (map event_echo evs) @ [EchoLn []],
      Inr (streamed_text evs, last_identifier captured_identifier evs))
   \<and> stream_request (rem\<lparr>responses_create_stream := (\<lambda>_. Inr (map Inr evs))\<rparr>) params
        previous_response_id =
       (ResponsesCreate (params\<lparr>req_stream := Some True\<rparr>)
          # concat (map event_echo evs) @ [EchoLn []],
        (if truthy (last_identifier captured_identifier evs)
         then last_identifier captured_identifier evs else previous_response_id),
        None)"
proof -
  have a: "process_streaming_events (map Inr evs) =
     (concat (map event_echo evs) @ [EchoLn []],
      Inr (streamed_text evs, last_identifier captured_identifier evs))"
    by (simp add: process_streaming_events_def process_events_eq split: option.splits)
  show ?thesis
    by (simp add: a stream_request_def Let_def)
qed

theorem streaming_events_result_witness:
  "process_streaming_events (map Inr sample_events) =
     ([Echo ''[Queued...]'', Echo ''[Processing...]'', Echo ''Hel'', Echo ''lo'', EchoLn []],
      Inr (''Hello'', Some ''resp_1''))"
proof -
  have e: "concat (map event_echo sample_events) =
             [Echo ''[Queued...]'', Echo ''[Processing...]'', Echo ''Hel'', Echo ''lo'']"
    by (simp add: sample_events_def event_echo_def counted_delta_def)
  have t: "streamed_text sample_events = ''Hello''"
    by (simp add: sample_events_def streamed_text_def counted_delta_def)
  have i: "last_identifier captured_identifier sample_events = Some ''resp_1''"
    by (simp add: sample_events_def last_identifier_def captured_identifier_def)
  from streaming_events_result [of sample_events, THEN conjunct1] show ?thesis
    by (simp only: e t i append.simps)
qed

text \<open>
  C5, as it is stated, fails: an event without a type that carries both a delta and an
  identifier is taken as a delta event by the \<^verbatim>\<open>elif\<close> chain, and its identifier is not
  captured. For the sequence of that one event the handler returns no identifier, where
  the statement has the event's identifier.
\<close>

theorem streaming_identifier_counterexample:
  "snd (process_streaming_events [Inr delta_with_id]) = Inr (''x'', None)
   \<and> last_identifier claimed_identifier [delta_with_id] = Some ''r1''
   \<and> snd (process_streaming_events [Inr delta_with_id])
        \<noteq> Inr (streamed_text [delta_with_id], last_identifier claimed_identifier [delta_with_id])"
  by (simp add: process_streaming_events_def process_event_def last_identifier_def
      claimed_identifier_def delta_with_id_def)

section \<open>Text extraction\<close>

text \<open>Where the response has the aggregated text, or has the structured output, the
  extraction gives a string, in the three ways of the description.\<close>

lemma extract_aggregated:
  "resp_output_text r = Some t \<Longrightarrow> extract_response_text r = Inr t"
  by (simp add: extract_response_text_def)

lemma extract_fragments:
  "resp_output_text r = None \<Longrightarrow> resp_output r = Some items \<Longrightarrow>
   concat (map item_texts items) \<noteq> [] \<Longrightarrow>
   extract_response_text r = Inr (concat (concat (map item_texts items)))"
  by (auto simp: extract_response_text_def Let_def)

lemma extract_raw:
  "resp_output_text r = None \<Longrightarrow> resp_output r = Some items \<Longrightarrow>
   concat (map item_texts items) = [] \<Longrightarrow>
   extract_response_text r = Inr (str_output items)"
  by (auto simp: extract_response_text_def Let_def)

text \<open>
  C6. The extraction does not give a string for every response object: for an object that
  has neither the aggregated text nor the structured output, the test of line 87 fails and
  the last line reads the attribute that is not there, which raises \<^verbatim>\<open>AttributeError\<close>.
\<close>

theorem extract_response_text_without_output:
  "extract_response_text response_without_output = Inl (AttributeError ''Response'' ''output'')"
  by (simp add: extract_response_text_def response_without_output_def)

section \<open>The request of a turn of the Responses loop\<close>

lemma request_system_iff:
  "\<lparr>role = ''system'', content = Some system\<rparr> \<in> set (req_input (request_params model system u p))
     \<longleftrightarrow> p = None"
  by (simp add: request_params_def input_messages_def)

lemma request_without_identifier:
  "request_params model system u None =
     \<lparr>req_model = model,
      req_input = [\<lparr>role = ''system'', content = Some system\<rparr>, \<lparr>role = ''user'', content = Some u\<rparr>],
      req_previous_response_id = None, req_background = None, req_stream = None\<rparr>"
  by (simp add: request_params_def input_messages_def truthy_def)

lemma request_with_identifier:
  "i \<noteq> [] \<Longrightarrow>
   request_params model system u (Some i) =
     \<lparr>req_model = model, req_input = [\<lparr>role = ''user'', content = Some u\<rparr>],
      req_previous_response_id = Some i, req_background = None, req_stream = None\<rparr>"
  by (simp add: request_params_def input_messages_def truthy_def)

lemma clear_forgets_identifier:
  "prompt_result env = Inr line \<Longrightarrow> lower (strip line) = ''/clear'' \<Longrightarrow>
   responses_iteration model stream background system env p =
     Some ([Prompt ''You: '', EchoLn ''Conversation cleared (stateful context reset).\<newline>''],
           Continue None)"
  using clear_not_exit by (auto simp: responses_iteration_def Let_def lower_def)

text \<open>
  C3. The request of a turn has the system message exactly when the stored identifier is
  \<^verbatim>\<open>None\<close>, and carries a stored identifier that is not empty (the three lemmas above). It
  does not carry a stored identifier that is empty: the plain request stores the
  identifier of the response without looking at it, and after a response whose identifier
  is the empty string the request of the next turn has neither the system message nor a
  reference to the previous response.
\<close>

theorem empty_identifier_request:
  "run_responses_api ''m'' False False ''s''
     [\<lparr>prompt_result = Inr ''hi'', remote_of = remote_answering response_empty_id\<rparr>,
      \<lparr>prompt_result = Inr ''again'', remote_of = remote_answering response_empty_id\<rparr>]
   = Some ([Prompt ''You: '', EchoLn [], Echo ''Assistant: '',
            ResponsesCreate
              \<lparr>req_model = ''m'',
               req_input = [\<lparr>role = ''system'', content = Some ''s''\<rparr>,
                            \<lparr>role = ''user'', content = Some ''hi''\<rparr>],
               req_previous_response_id = None, req_background = None, req_stream = None\<rparr>,
            EchoLn ''hello'', EchoLn [],
            Prompt ''You: '', EchoLn [], Echo ''Assistant: '',
            ResponsesCreate
              \<lparr>req_model = ''m'',
               req_input = [\<lparr>role = ''user'', content = Some ''again''\<rparr>],
               req_previous_response_id = None, req_background = None, req_stream = None\<rparr>,
            EchoLn ''hello'', EchoLn []],
           Continue (Some []))"
  by (simp add: run_responses_api_def responses_iteration_def responses_try_def
      plain_request_def request_params_def input_messages_def truthy_def
      extract_response_text_def remote_answering_def remote_down_def response_empty_id_def
      strip_hi lower_hi strip_again lower_again EXIT_COMMANDS_def Let_def)

section \<open>Background polling\<close>

lemma poll_effects_Suc:
  "poll_effects i (Suc n) = poll_effects i n @ poll_step i (Suc n)"
  by (simp add: poll_effects_def)

text \<open>One round of the polling loop, and its end.\<close>

lemma poll_pending:
  assumes "pending r" and "retrieve (Suc c) i = Inr r'"
  shows "poll retrieve i r c out = poll retrieve i r' (Suc c) (out @ poll_step i (Suc c))"
  using assms
  by (subst poll.simps) (auto simp: pending_def poll_step_def Let_def)

lemma poll_done:
  assumes "resp_status r = Some st" and "st \<noteq> ''queued''" and "st \<noteq> ''in_progress''"
  shows "poll retrieve i r c out = Some (out, Inr r)"
  using assms by (subst poll.simps) simp

text \<open>While the job stays pending, the loop goes from the response of the request to the
  \<open>n\<close>-th retrieved one with the effects of \<open>n\<close> polls.\<close>

lemma poll_run:
  assumes "\<forall>k<n. pending (rs k)"
    and "\<forall>k. 0 < k \<and> k \<le> n \<longrightarrow> retrieve k i = Inr (rs k)"
  shows "poll retrieve i (rs 0) 0 out = poll retrieve i (rs n) n (out @ poll_effects i n)"
  using assms
proof (induction n)
  case 0
  then show ?case by (simp add: poll_effects_def)
next
  case (Suc n)
  have "poll retrieve i (rs 0) 0 out = poll retrieve i (rs n) n (out @ poll_effects i n)"
    using Suc by simp
  also have "\<dots> =
      poll retrieve i (rs (Suc n)) (Suc n) ((out @ poll_effects i n) @ poll_step i (Suc n))"
    using Suc.prems by (intro poll_pending) simp_all
  finally show ?case by (simp add: poll_effects_Suc)
qed

text \<open>A retrieval that raises while the job is pending ends the body of the \<^verbatim>\<open>try\<close> in
  that exception, with the stored identifier as it was.\<close>

lemma poll_pending_raises:
  assumes "pending r" and "retrieve (Suc c) i = Inl e"
  shows "poll retrieve i r c out = Some (out @ poll_step i (Suc c), Inl e)"
  using assms
  by (subst poll.simps) (auto simp: pending_def poll_step_def Let_def)

lemma background_retrieve_raises:
  assumes "responses_create rem
             ((request_params model system u p)\<lparr>req_background := Some True\<rparr>) = Inr (rs 0)"
    and "resp_id (rs 0) = Some i"
    and "\<forall>k\<le>n. pending (rs k)"
    and "\<forall>k. 0 < k \<and> k \<le> n \<longrightarrow> responses_retrieve rem k i = Inr (rs k)"
    and "responses_retrieve rem (Suc n) i = Inl e"
  shows "responses_try rem model False True system u p =
           Some ([ResponsesCreate ((request_params model system u p)\<lparr>req_background := Some True\<rparr>),
                  Echo ''[Background processing started...]'']
                 @ poll_effects i (Suc n), p, Some e)"
proof -
  let ?params = "(request_params model system u p)\<lparr>req_background := Some True\<rparr>"
  let ?out = "[ResponsesCreate ?params, Echo ''[Background processing started...]'']"
  have "poll (responses_retrieve rem) i (rs 0) 0 ?out
          = poll (responses_retrieve rem) i (rs n) n (?out @ poll_effects i n)"
    using assms(3,4) by (intro poll_run) simp_all
  also have "\<dots> = Some ((?out @ poll_effects i n) @ poll_step i (Suc n), Inl e)"
    using assms(3,5) by (intro poll_pending_raises) simp_all
  finally have "poll (responses_retrieve rem) i (rs 0) 0 ?out
          = Some (?out @ poll_effects i (Suc n), Inl e)"
    by (simp add: poll_effects_Suc)
  then show ?thesis
    using assms(1,2) by (simp add: responses_try_def background_request_def Let_def)
qed

lemma count_dots_step:
  "length (filter (\<lambda>x. x = Echo ''.'') (poll_step i k)) = (if k mod 5 = 0 then 1 else 0)"
  by (simp add: poll_step_def)

lemma count_dots: "length (filter (\<lambda>x. x = Echo ''.'') (poll_effects i n)) = n div 5"
proof (induction n)
  case 0
  then show ?case by (simp add: poll_effects_def)
next
  case (Suc n)
  have "Suc n div 5 = n div 5 + (if Suc n mod 5 = 0 then 1 else 0)"
    by presburger
  with Suc show ?case by (simp add: poll_effects_Suc count_dots_step)
qed

lemma count_sleeps: "length (filter (\<lambda>x. x = Sleep 1) (poll_effects i n)) = n"
  by (induction n) (simp_all add: poll_effects_def poll_step_def)

lemma count_retrieves: "length (filter (\<lambda>x. x = ResponsesRetrieve i) (poll_effects i n)) = n"
  by (induction n) (simp_all add: poll_effects_def poll_step_def)

lemma poll_effects_3:
  "poll_effects ''resp_1'' 3 =
     [Sleep 1, ResponsesRetrieve ''resp_1'', Sleep 1, ResponsesRetrieve ''resp_1'',
      Sleep 1, ResponsesRetrieve ''resp_1'']"
  by code_simp

lemma poll_effects_5:
  "poll_effects ''resp_1'' 5 =
     [Sleep 1, ResponsesRetrieve ''resp_1'', Sleep 1, ResponsesRetrieve ''resp_1'',
      Sleep 1, ResponsesRetrieve ''resp_1'', Sleep 1, ResponsesRetrieve ''resp_1'',
      Sleep 1, Echo ''.'', ResponsesRetrieve ''resp_1'']"
  by code_simp

text \<open>
  C4. In background mode without streaming, let the request return a response with an
  identifier, let the job be pending in that response and in the first \<open>n - 1\<close> retrieved
  ones, and let the \<open>n\<close>-th retrieved response have a status \<open>st\<close> that is neither
  \<^verbatim>\<open>queued\<close> nor \<^verbatim>\<open>in_progress\<close>. Then the body of the \<^verbatim>\<open>try\<close> ends, and it has done this:
  the request, the start notice, \<open>n\<close> polls (each a sleep of one unit, a progress marker
  when the number of the poll is a multiple of 5, and a retrieval by the identifier), a
  newline and the label, and then the extracted text for \<^verbatim>\<open>completed\<close>, the failure notice
  for \<^verbatim>\<open>failed\<close>, the cancellation notice for \<^verbatim>\<open>cancelled\<close>, the unexpected-status notice
  for anything else. The stored identifier becomes that of the job when the status is
  \<^verbatim>\<open>completed\<close> and the text was extracted, and stays as it was in every other case.
  Among the polls there are \<open>n div 5\<close> progress markers, \<open>n\<close> sleeps and \<open>n\<close> retrievals.
\<close>

theorem background_polling:
  assumes "responses_create rem
             ((request_params model system user_input previous_response_id)
                \<lparr>req_background := Some True\<rparr>) = Inr (rs 0)"
    and "resp_id (rs 0) = Some response_id"
    and "\<forall>k<n. pending (rs k)"
    and "\<forall>k. 0 < k \<and> k \<le> n \<longrightarrow> responses_retrieve rem k response_id = Inr (rs k)"
    and "resp_status (rs n) = Some st"
    and "st \<noteq> ''queued''" and "st \<noteq> ''in_progress''"
  shows "responses_try rem model False True system user_input previous_response_id =
           Some ([ResponsesCreate ((request_params model system user_input previous_response_id)
                    \<lparr>req_background := Some True\<rparr>),
                  Echo ''[Background processing started...]'']
                 @ poll_effects response_id n
                 @ [EchoLn [], Echo ''Assistant: '']
                 @ (if st = ''completed'' then
                      (case extract_response_text (rs n) of
                         Inl e \<Rightarrow> [] | Inr text \<Rightarrow> [EchoLn text])
                    else if st = ''failed'' then [EchoLn ''[Background task failed: failed]'']
                    else if st = ''cancelled'' then [EchoLn ''[Background task was cancelled]'']
                    else [EchoLn (''[Unexpected status: '' @ st @ '']'')]),
                 (if st = ''completed'' then
                    (case extract_response_text (rs n) of
                       Inl e \<Rightarrow> previous_response_id | Inr text \<Rightarrow> Some response_id)
                  else previous_response_id),
                 (if st = ''completed'' then
                    (case extract_response_text (rs n) of
                       Inl e \<Rightarrow> Some e | Inr text \<Rightarrow> None)
                  else None))
         \<and> length (filter (\<lambda>x. x = Echo ''.'') (poll_effects response_id n)) = n div 5
         \<and> length (filter (\<lambda>x. x = Sleep 1) (poll_effects response_id n)) = n
         \<and> length (filter (\<lambda>x. x = ResponsesRetrieve response_id) (poll_effects response_id n)) = n"
proof -
  let ?params = "(request_params model system user_input previous_response_id)
                    \<lparr>req_background := Some True\<rparr>"
  let ?out = "[ResponsesCreate ?params, Echo ''[Background processing started...]'']"
  have "poll (responses_retrieve rem) response_id (rs 0) 0 ?out
          = poll (responses_retrieve rem) response_id (rs n) n (?out @ poll_effects response_id n)"
    using assms(3,4) by (rule poll_run)
  also have "\<dots> = Some (?out @ poll_effects response_id n, Inr (rs n))"
    using assms(5,6,7) by (rule poll_done)
  finally have p: "poll (responses_retrieve rem) response_id (rs 0) 0 ?out
          = Some (?out @ poll_effects response_id n, Inr (rs n))" .
  have "responses_try rem model False True system user_input previous_response_id
          = background_request rem ?params previous_response_id"
    by (simp add: responses_try_def Let_def)
  also have "\<dots> = (case report_job response_id (rs n) previous_response_id of
                      (out', r) \<Rightarrow> Some ((?out @ poll_effects response_id n) @ out', r))"
    using assms(1,2) p by (simp add: background_request_def)
  finally have main:
    "responses_try rem model False True system user_input previous_response_id
       = (case report_job response_id (rs n) previous_response_id of
            (out', r) \<Rightarrow> Some ((?out @ poll_effects response_id n) @ out', r))" .
  show ?thesis
  proof (intro conjI)
    show "length (filter (\<lambda>x. x = Echo ''.'') (poll_effects response_id n)) = n div 5"
      by (rule count_dots)
    show "length (filter (\<lambda>x. x = Sleep 1) (poll_effects response_id n)) = n"
      by (rule count_sleeps)
    show "length (filter (\<lambda>x. x = ResponsesRetrieve response_id) (poll_effects response_id n)) = n"
      by (rule count_retrieves)
  next
    show "responses_try rem model False True system user_input previous_response_id =
           Some ([ResponsesCreate ?params,
                  Echo ''[Background processing started...]'']
                 @ poll_effects response_id n
                 @ [EchoLn [], Echo ''Assistant: '']
                 @ (if st = ''completed'' then
                      (case extract_response_text (rs n) of
                         Inl e \<Rightarrow> [] | Inr text \<Rightarrow> [EchoLn text])
                    else if st = ''failed'' then [EchoLn ''[Background task failed: failed]'']
                    else if st = ''cancelled'' then [EchoLn ''[Background task was cancelled]'']
                    else [EchoLn (''[Unexpected status: '' @ st @ '']'')]),
                 (if st = ''completed'' then
                    (case extract_response_text (rs n) of
                       Inl e \<Rightarrow> previous_response_id | Inr text \<Rightarrow> Some response_id)
                  else previous_response_id),
                 (if st = ''completed'' then
                    (case extract_response_text (rs n) of
                       Inl e \<Rightarrow> Some e | Inr text \<Rightarrow> None)
                  else None))"
      using assms(5)
      by (simp add: main report_job_def Let_def split: sum.splits)
  qed
qed

theorem background_polling_witness:
  "responses_try remote_job ''m'' False True ''s'' ''hi'' None =
     Some ([ResponsesCreate
              \<lparr>req_model = ''m'',
               req_input = [\<lparr>role = ''system'', content = Some ''s''\<rparr>,
                            \<lparr>role = ''user'', content = Some ''hi''\<rparr>],
               req_previous_response_id = None, req_background = Some True, req_stream = None\<rparr>,
            Echo ''[Background processing started...]'',
            Sleep 1, ResponsesRetrieve ''resp_1'', Sleep 1, ResponsesRetrieve ''resp_1'',
            Sleep 1, ResponsesRetrieve ''resp_1'', Sleep 1, ResponsesRetrieve ''resp_1'',
            Sleep 1, Echo ''.'', ResponsesRetrieve ''resp_1'',
            EchoLn [], Echo ''Assistant: '', EchoLn ''done''],
           Some ''resp_1'', None)"
proof -
  let ?params = "(request_params ''m'' ''s'' ''hi'' None)\<lparr>req_background := Some True\<rparr>"
  have h1: "responses_create remote_job ?params = Inr (job_at 0)"
    by (simp add: remote_job_def)
  have h2: "resp_id (job_at 0) = Some ''resp_1''"
    by (simp add: job_at_def)
  have h3: "\<forall>k<5. pending (job_at k)"
    by (simp add: pending_def job_at_def)
  have h4: "\<forall>k. 0 < k \<and> k \<le> 5 \<longrightarrow> responses_retrieve remote_job k ''resp_1'' = Inr (job_at k)"
    by (simp add: remote_job_def)
  have h5: "resp_status (job_at 5) = Some ''completed''"
    by (simp add: job_at_def)
  have h6: "''completed'' \<noteq> ''queued''" and h7: "''completed'' \<noteq> ''in_progress''"
    by simp_all
  have x: "extract_response_text (job_at 5) = Inr ''done''"
    by (simp add: extract_response_text_def job_at_def)
  from background_polling [OF h1 h2 h3 h4 h5 h6 h7, THEN conjunct1]
  show ?thesis
    by (simp add: x poll_effects_5 request_without_identifier)
qed

section \<open>A failed turn of the Responses loop\<close>

text \<open>In each part of the body of the \<^verbatim>\<open>try\<close>, the assignment to the identifier is the last
  thing that happens: when the part ends in an exception the identifier is as it was.\<close>

lemma stream_request_atomic:
  "stream_request rem params p = (out, p', Some e) \<Longrightarrow> p' = p"
  by (auto simp: stream_request_def Let_def split: sum.splits prod.splits)

lemma plain_request_atomic:
  "plain_request rem params p = (out, p', Some e) \<Longrightarrow> p' = p"
  by (auto simp: plain_request_def split: sum.splits option.splits)

lemma report_job_atomic:
  "report_job i r p = (out, p', Some e) \<Longrightarrow> p' = p"
  by (auto simp: report_job_def Let_def split: sum.splits option.splits if_splits)

lemma background_request_atomic:
  "background_request rem params p = Some (out, p', Some e) \<Longrightarrow> p' = p"
  by (auto simp: background_request_def split: sum.splits option.splits prod.splits
      dest: report_job_atomic)

lemma responses_try_atomic:
  "responses_try rem model stream background system user_input p = Some (out, p', Some e)
     \<Longrightarrow> p' = p"
  by (auto simp: responses_try_def Let_def split: if_splits
      dest: stream_request_atomic plain_request_atomic background_request_atomic)

text \<open>When the request raises, in any of the four shapes, or the event stream raises after
  any number of events, the body of the \<^verbatim>\<open>try\<close> ends in that exception.\<close>

lemma responses_try_create_raises:
  assumes "\<not> stream"
    and "responses_create rem
           ((request_params model system u p)\<lparr>req_background := (if background then Some True else None)\<rparr>)
         = Inl e"
  shows "responses_try rem model stream background system u p =
           Some ([ResponsesCreate ((request_params model system u p)
                    \<lparr>req_background := (if background then Some True else None)\<rparr>)],
                 p, Some e)"
  using assms
  by (auto simp: responses_try_def plain_request_def background_request_def Let_def
      request_params_def)

lemma responses_try_stream_create_raises:
  assumes "stream"
    and "responses_create_stream rem
           ((request_params model system u p)
              \<lparr>req_background := (if background then Some True else None), req_stream := Some True\<rparr>)
         = Inl e"
  shows "responses_try rem model stream background system u p =
           Some ([ResponsesCreate ((request_params model system u p)
                    \<lparr>req_background := (if background then Some True else None),
                     req_stream := Some True\<rparr>)],
                 p, Some e)"
  using assms
  by (auto simp: responses_try_def stream_request_def Let_def request_params_def)

lemma process_events_raise:
  "process_events (map Inr evs @ Inl e # rest) t i = (concat (map event_echo evs), Inl e)"
  by (induction evs arbitrary: t i) (simp_all add: process_event_eq)

lemma responses_try_stream_raises:
  assumes "stream"
    and "responses_create_stream rem
           ((request_params model system u p)
              \<lparr>req_background := (if background then Some True else None), req_stream := Some True\<rparr>)
         = Inr (map Inr evs @ Inl e # rest)"
  shows "responses_try rem model stream background system u p =
           Some (ResponsesCreate ((request_params model system u p)
                    \<lparr>req_background := (if background then Some True else None),
                     req_stream := Some True\<rparr>) # concat (map event_echo evs),
                 p, Some e)"
  using assms
  by (auto simp: responses_try_def stream_request_def Let_def request_params_def
      process_streaming_events_def process_events_raise)

text \<open>Whatever exception ends the body of the \<^verbatim>\<open>try\<close>, the iteration prints it and ends at
  the loop head with the identifier it started with.\<close>

lemma responses_exception_keeps_identifier:
  assumes "prompt_result env = Inr line"
    and "strip line \<noteq> []"
    and "lower (strip line) \<notin> {''/quit'', ''/q'', ''/exit'', ''/e''}"
    and "lower (strip line) \<noteq> ''/clear''"
    and "lower (strip line) \<noteq> ''/status''"
    and "responses_try (remote_of env) model stream background system (strip line) p
           = Some (out, p', Some e)"
  shows "responses_iteration model stream background system env p =
           Some (failed_turn_effects out e, Continue p)"
proof -
  have "p' = p" using responses_try_atomic [OF assms(6)] .
  with assms show ?thesis
    by (simp add: responses_iteration_def Let_def failed_turn_effects_def EXIT_COMMANDS_def)
qed

text \<open>
  C2. In responses mode, take a turn: the prompt returned a line that, stripped, is not
  empty and is no command; \<open>req\<close> is the request of the turn, with the background flag
  when background processing is on. If a call to the remote service raises an exception
  \<open>e\<close>, in any of the four request shapes (the request itself, streaming or not, in the
  foreground or in the background; the event stream after any number of events; a
  retrieval while the background job is pending), then the iteration ends, it prints what
  was done up to the failure and the error line with the text of \<open>e\<close>, and it is at the
  loop head with the stored identifier it started with. From there the loop runs its next
  iterations.
\<close>

theorem responses_failed_turn_keeps_identifier:
  assumes "prompt_result env = Inr line"
    and "strip line \<noteq> []"
    and "lower (strip line) \<notin> {''/quit'', ''/q'', ''/exit'', ''/e''}"
    and "lower (strip line) \<noteq> ''/clear''"
    and "lower (strip line) \<noteq> ''/status''"
    and "req = (request_params model system (strip line) previous_response_id)
                 \<lparr>req_background := (if background then Some True else None)\<rparr>"
  shows "(\<not> stream \<and> responses_create (remote_of env) req = Inl e
          \<longrightarrow> responses_iteration model stream background system env previous_response_id =
                Some (failed_turn_effects [ResponsesCreate req] e, Continue previous_response_id))
       \<and> (stream \<and> responses_create_stream (remote_of env) (req\<lparr>req_stream := Some True\<rparr>) = Inl e
          \<longrightarrow> responses_iteration model stream background system env previous_response_id =
                Some (failed_turn_effects [ResponsesCreate (req\<lparr>req_stream := Some True\<rparr>)] e,
                      Continue previous_response_id))
       \<and> (stream \<and> responses_create_stream (remote_of env) (req\<lparr>req_stream := Some True\<rparr>)
                      = Inr (map Inr evs @ Inl e # rest)
          \<longrightarrow> responses_iteration model stream background system env previous_response_id =
                Some (failed_turn_effects
                        (ResponsesCreate (req\<lparr>req_stream := Some True\<rparr>)
                           # concat (map event_echo evs)) e,
                      Continue previous_response_id))
       \<and> (\<not> stream \<and> background \<and> responses_create (remote_of env) req = Inr (rs 0) \<and>
          resp_id (rs 0) = Some response_id \<and> (\<forall>k\<le>n. pending (rs k)) \<and>
          (\<forall>k. 0 < k \<and> k \<le> n \<longrightarrow> responses_retrieve (remote_of env) k response_id = Inr (rs k)) \<and>
          responses_retrieve (remote_of env) (Suc n) response_id = Inl e
          \<longrightarrow> responses_iteration model stream background system env previous_response_id =
                Some (failed_turn_effects
                        ([ResponsesCreate req, Echo ''[Background processing started...]'']
                           @ poll_effects response_id (Suc n)) e,
                      Continue previous_response_id))
       \<and> (\<forall>out. responses_iteration model stream background system env previous_response_id =
                  Some (out, Continue previous_response_id)
          \<longrightarrow> responses_loop model stream background system (env # envs) previous_response_id =
                (case responses_loop model stream background system envs previous_response_id of
                   None \<Rightarrow> None
                 | Some (out', r) \<Rightarrow> Some (out @ out', r)))"
proof (intro conjI impI allI)
  assume "\<not> stream \<and> responses_create (remote_of env) req = Inl e"
  then have "responses_try (remote_of env) model stream background system (strip line)
               previous_response_id = Some ([ResponsesCreate req], previous_response_id, Some e)"
    unfolding assms(6) by (intro responses_try_create_raises) (use assms(6) in simp_all)
  then show "responses_iteration model stream background system env previous_response_id =
                Some (failed_turn_effects [ResponsesCreate req] e, Continue previous_response_id)"
    by (rule responses_exception_keeps_identifier [OF assms(1-5)])
next
  assume "stream \<and> responses_create_stream (remote_of env) (req\<lparr>req_stream := Some True\<rparr>) = Inl e"
  then have "responses_try (remote_of env) model stream background system (strip line)
               previous_response_id
             = Some ([ResponsesCreate (req\<lparr>req_stream := Some True\<rparr>)], previous_response_id, Some e)"
    unfolding assms(6) by (intro responses_try_stream_create_raises) (use assms(6) in simp_all)
  then show "responses_iteration model stream background system env previous_response_id =
                Some (failed_turn_effects [ResponsesCreate (req\<lparr>req_stream := Some True\<rparr>)] e,
                      Continue previous_response_id)"
    by (rule responses_exception_keeps_identifier [OF assms(1-5)])
next
  assume "stream \<and> responses_create_stream (remote_of env) (req\<lparr>req_stream := Some True\<rparr>)
                      = Inr (map Inr evs @ Inl e # rest)"
  then have "responses_try (remote_of env) model stream background system (strip line)
               previous_response_id
             = Some (ResponsesCreate (req\<lparr>req_stream := Some True\<rparr>) # concat (map event_echo evs),
                     previous_response_id, Some e)"
    unfolding assms(6) by (intro responses_try_stream_raises) (use assms(6) in simp_all)
  then show "responses_iteration model stream background system env previous_response_id =
                Some (failed_turn_effects
                        (ResponsesCreate (req\<lparr>req_stream := Some True\<rparr>)
                           # concat (map event_echo evs)) e,
                      Continue previous_response_id)"
    by (rule responses_exception_keeps_identifier [OF assms(1-5)])
next
  assume a: "\<not> stream \<and> background \<and> responses_create (remote_of env) req = Inr (rs 0) \<and>
          resp_id (rs 0) = Some response_id \<and> (\<forall>k\<le>n. pending (rs k)) \<and>
          (\<forall>k. 0 < k \<and> k \<le> n \<longrightarrow> responses_retrieve (remote_of env) k response_id = Inr (rs k)) \<and>
          responses_retrieve (remote_of env) (Suc n) response_id = Inl e"
  then have r: "req = (request_params model system (strip line) previous_response_id)
                  \<lparr>req_background := Some True\<rparr>"
    using assms(6) by simp
  have "responses_try (remote_of env) model False True system (strip line) previous_response_id
          = Some ([ResponsesCreate ((request_params model system (strip line) previous_response_id)
                     \<lparr>req_background := Some True\<rparr>),
                   Echo ''[Background processing started...]'']
                  @ poll_effects response_id (Suc n), previous_response_id, Some e)"
    using a r by (intro background_retrieve_raises [where rs = rs]) simp_all
  with a r have "responses_try (remote_of env) model stream background system (strip line)
               previous_response_id
          = Some ([ResponsesCreate req, Echo ''[Background processing started...]'']
                  @ poll_effects response_id (Suc n), previous_response_id, Some e)"
    by simp
  then show "responses_iteration model stream background system env previous_response_id =
                Some (failed_turn_effects
                        ([ResponsesCreate req, Echo ''[Background processing started...]'']
                           @ poll_effects response_id (Suc n)) e,
                      Continue previous_response_id)"
    by (rule responses_exception_keeps_identifier [OF assms(1-5)])
next
  fix out
  assume "responses_iteration model stream background system env previous_response_id =
                  Some (out, Continue previous_response_id)"
  then show "responses_loop model stream background system (env # envs) previous_response_id =
                (case responses_loop model stream background system envs previous_response_id of
                   None \<Rightarrow> None
                 | Some (out', r) \<Rightarrow> Some (out @ out', r))"
    by simp
qed

theorem responses_failed_turn_keeps_identifier_witness:
  "responses_iteration ''m'' False False ''s''
       \<lparr>prompt_result = Inr ''hi'', remote_of = remote_down\<rparr> (Some ''resp_0'')
     = Some ([Prompt ''You: '', EchoLn [], Echo ''Assistant: '',
              ResponsesCreate
                \<lparr>req_model = ''m'', req_input = [\<lparr>role = ''user'', content = Some ''hi''\<rparr>],
                 req_previous_response_id = Some ''resp_0'', req_background = None,
                 req_stream = None\<rparr>,
              EchoLn ''\<newline>Error: connection refused'', EchoLn []],
             Continue (Some ''resp_0''))
   \<and> responses_iteration ''m'' False True ''s''
       \<lparr>prompt_result = Inr ''hi'', remote_of = remote_down\<rparr> (Some ''resp_0'')
     = Some ([Prompt ''You: '', EchoLn [], Echo ''Assistant: '',
              ResponsesCreate
                \<lparr>req_model = ''m'', req_input = [\<lparr>role = ''user'', content = Some ''hi''\<rparr>],
                 req_previous_response_id = Some ''resp_0'', req_background = Some True,
                 req_stream = None\<rparr>,
              EchoLn ''\<newline>Error: connection refused'', EchoLn []],
             Continue (Some ''resp_0''))
   \<and> responses_iteration ''m'' True False ''s''
       \<lparr>prompt_result = Inr ''hi'', remote_of = remote_down\<rparr> (Some ''resp_0'')
     = Some ([Prompt ''You: '', EchoLn [], Echo ''Assistant: '',
              ResponsesCreate
                \<lparr>req_model = ''m'', req_input = [\<lparr>role = ''user'', content = Some ''hi''\<rparr>],
                 req_previous_response_id = Some ''resp_0'', req_background = None,
                 req_stream = Some True\<rparr>,
              EchoLn ''\<newline>Error: connection refused'', EchoLn []],
             Continue (Some ''resp_0''))
   \<and> responses_iteration ''m'' True True ''s''
       \<lparr>prompt_result = Inr ''hi'', remote_of = remote_down\<rparr> (Some ''resp_0'')
     = Some ([Prompt ''You: '', EchoLn [], Echo ''Assistant: '',
              ResponsesCreate
                \<lparr>req_model = ''m'', req_input = [\<lparr>role = ''user'', content = Some ''hi''\<rparr>],
                 req_previous_response_id = Some ''resp_0'', req_background = Some True,
                 req_stream = Some True\<rparr>,
              EchoLn ''\<newline>Error: connection refused'', EchoLn []],
             Continue (Some ''resp_0''))
   \<and> responses_iteration ''m'' True False ''s''
       \<lparr>prompt_result = Inr ''hi'', remote_of = remote_broken_stream\<rparr> (Some ''resp_0'')
     = Some ([Prompt ''You: '', EchoLn [], Echo ''Assistant: '',
              ResponsesCreate
                \<lparr>req_model = ''m'', req_input = [\<lparr>role = ''user'', content = Some ''hi''\<rparr>],
                 req_previous_response_id = Some ''resp_0'', req_background = None,
                 req_stream = Some True\<rparr>,
              Echo ''Hel'',
              EchoLn ''\<newline>Error: connection lost'', EchoLn []],
             Continue (Some ''resp_0''))
   \<and> responses_iteration ''m'' False True ''s''
       \<lparr>prompt_result = Inr ''hi'', remote_of = remote_lost_job\<rparr> (Some ''resp_0'')
     = Some ([Prompt ''You: '', EchoLn [], Echo ''Assistant: '',
              ResponsesCreate
                \<lparr>req_model = ''m'', req_input = [\<lparr>role = ''user'', content = Some ''hi''\<rparr>],
                 req_previous_response_id = Some ''resp_0'', req_background = Some True,
                 req_stream = None\<rparr>,
              Echo ''[Background processing started...]'',
              Sleep 1, ResponsesRetrieve ''resp_1'', Sleep 1, ResponsesRetrieve ''resp_1'',
              Sleep 1, ResponsesRetrieve ''resp_1'',
              EchoLn ''\<newline>Error: connection lost'', EchoLn []],
             Continue (Some ''resp_0''))"
proof -
  let ?down = "\<lparr>prompt_result = Inr ''hi'', remote_of = remote_down\<rparr>"
  let ?broken = "\<lparr>prompt_result = Inr ''hi'', remote_of = remote_broken_stream\<rparr>"
  let ?lost = "\<lparr>prompt_result = Inr ''hi'', remote_of = remote_lost_job\<rparr>"
  let ?req = "\<lambda>background. (request_params ''m'' ''s'' (strip ''hi'') (Some ''resp_0''))
                 \<lparr>req_background := (if background then Some True else None)\<rparr>"
  have d: "prompt_result ?down = Inr ''hi''" and b: "prompt_result ?broken = Inr ''hi''"
    and l: "prompt_result ?lost = Inr ''hi''"
    by simp_all
  have a1: "\<not> False \<and> responses_create (remote_of ?down) (?req background)
              = Inl (RemoteError ''connection refused'')" for background
    by (simp add: remote_down_def)
  have a2: "True \<and> responses_create_stream (remote_of ?down) ((?req background)\<lparr>req_stream := Some True\<rparr>)
              = Inl (RemoteError ''connection refused'')" for background
    by (simp add: remote_down_def)
  have a3: "True \<and> responses_create_stream (remote_of ?broken) ((?req False)\<lparr>req_stream := Some True\<rparr>)
              = Inr (map Inr [\<lparr>ev_type = Some ''response.output_text.delta'', ev_delta = Some ''Hel'',
                                ev_response = None, ev_id = None\<rparr>]
                     @ Inl (RemoteError ''connection lost'') # [])"
    by (simp add: remote_broken_stream_def remote_down_def)
  have a4: "\<not> False \<and> True \<and> responses_create (remote_of ?lost) (?req True) = Inr (job_at 0) \<and>
          resp_id (job_at 0) = Some ''resp_1'' \<and> (\<forall>k\<le>2. pending (job_at k)) \<and>
          (\<forall>k. 0 < k \<and> k \<le> 2 \<longrightarrow> responses_retrieve (remote_of ?lost) k ''resp_1'' = Inr (job_at k)) \<and>
          responses_retrieve (remote_of ?lost) (Suc 2) ''resp_1'' = Inl (RemoteError ''connection lost'')"
    by (simp add: remote_lost_job_def remote_down_def job_at_def pending_def)
  note r1 = responses_failed_turn_keeps_identifier [where stream = False and background = False, OF d hi_not_command refl,
      THEN conjunct1, rule_format, OF a1]
  note r2 = responses_failed_turn_keeps_identifier [where stream = False and background = True, OF d hi_not_command refl,
      THEN conjunct1, rule_format, OF a1]
  note r3 = responses_failed_turn_keeps_identifier [where stream = True and background = False, OF d hi_not_command refl,
      THEN conjunct2, THEN conjunct1, rule_format, OF a2]
  note r4 = responses_failed_turn_keeps_identifier [where stream = True and background = True, OF d hi_not_command refl,
      THEN conjunct2, THEN conjunct1, rule_format, OF a2]
  note r5 = responses_failed_turn_keeps_identifier [where stream = True and background = False, OF b hi_not_command refl,
      THEN conjunct2, THEN conjunct2, THEN conjunct1, rule_format, OF a3]
  note r6 = responses_failed_turn_keeps_identifier [where stream = False and background = True, OF l hi_not_command refl,
      THEN conjunct2, THEN conjunct2, THEN conjunct2, THEN conjunct1, rule_format, OF a4]
  have n3: "Suc 2 = 3" by simp
  from r1 r2 r3 r4 r5 r6 show ?thesis
    by (simp add: failed_turn_effects_def strip_hi request_with_identifier n3 poll_effects_3
        event_echo_def counted_delta_def)
qed

end
